theory Spec2Isabelle
  imports Complex_Main
begin

section \<open>The loan predictor of src/lib/ml/loan-predictor.ts\<close>

text \<open>
  The TypeScript numbers of the source are IEEE doubles. They are modelled here as
  exact reals: \<open>Math.exp\<close> is \<open>exp\<close>, \<open>Math.round x\<close> is \<open>\<lfloor>x + 1/2\<rfloor>\<close>, and the
  rounding error of double arithmetic is not modelled. A real is never an infinity or
  NaN, so \<open>predict\<close> is given a second time, as \<open>predict_ieee\<close>, over doubles that keep
  overflow to an infinity and NaN; the range and the order of the scores that \<open>predict\<close>
  returns are settled on that second model.
  String-valued enumerations stay strings, as they are at run time, so that the
  \<open>default\<close> branches of the source's \<open>switch\<close> statements and the \<open>as any\<close> casts
  remain visible.
\<close>

subsection \<open>Data model\<close>

text \<open>\<open>LoanPredictionInput\<close>: the object handed to \<open>predict\<close>.\<close>

record LoanPredictionInput =
  creditScore :: real
  annualIncome :: real
  employmentLength :: real
  loanAmount :: real
  loanPurpose :: string
  debtToIncome :: real
  hasDerogatory :: bool
  delinquenciesLast2Years :: real
  inquiriesLast6Months :: real
  homeOwnership :: string
  verificationStatus :: string

datatype Prediction = Approved | Denied

datatype Confidence = High | Medium | Low

text \<open>
  \<open>FeatureImportance\<close>: one weight per input field. The fields carry the prefix
  \<open>w_\<close> because a record field is a constant and the input record owns the plain names.
\<close>

record FeatureImportance =
  w_creditScore :: real
  w_debtToIncome :: real
  w_annualIncome :: real
  w_employmentLength :: real
  w_hasDerogatory :: real
  w_delinquenciesLast2Years :: real
  w_inquiriesLast6Months :: real
  w_loanAmount :: real
  w_homeOwnership :: real
  w_verificationStatus :: real

record PredictionResult =
  prediction :: Prediction
  probability :: real
  confidence :: Confidence
  score :: real
  reasons :: "string list"
  featureImportance :: FeatureImportance
  riskFactors :: "string list"
  positiveFactors :: "string list"

text \<open>\<open>lastTrained\<close> is a \<open>Date\<close>: its \<open>getTime()\<close>, milliseconds since the epoch.\<close>

record ModelMetrics =
  accuracy :: real
  precision :: real
  recall :: real
  f1Score :: real
  lastTrained :: int
  trainingSize :: real

record Threshold =
  t_min :: real
  t_max :: real
  t_weight :: real

text \<open>The private fields of \<open>class LoanPredictionService\<close>.\<close>

record LoanPredictionService =
  modelWeights :: FeatureImportance
  thresholds :: "(string \<times> Threshold) list"
  metrics :: ModelMetrics

text \<open>The constructor. \<open>new Date('2024-01-15')\<close> is 1705276800000 ms.\<close>

definition initialWeights :: FeatureImportance where
  "initialWeights =
     \<lparr> w_creditScore = 0.35,
       w_debtToIncome = 0.25,
       w_annualIncome = 0.15,
       w_employmentLength = 0.08,
       w_hasDerogatory = 0.07,
       w_delinquenciesLast2Years = 0.05,
       w_inquiriesLast6Months = 0.03,
       w_loanAmount = 0.02,
       w_homeOwnership = 0.005,
       w_verificationStatus = 0.005 \<rparr>"

definition initialThresholds :: "(string \<times> Threshold) list" where
  "initialThresholds =
     [ (''creditScore'', \<lparr> t_min = 580, t_max = 800, t_weight = 1.0 \<rparr>),
       (''debtToIncome'', \<lparr> t_min = 0, t_max = 0.43, t_weight = -1.0 \<rparr>),
       (''annualIncome'', \<lparr> t_min = 30000, t_max = 200000, t_weight = 1.0 \<rparr>),
       (''employmentLength'', \<lparr> t_min = 2, t_max = 10, t_weight = 1.0 \<rparr>),
       (''loanAmount'', \<lparr> t_min = 1000, t_max = 50000, t_weight = -0.5 \<rparr>) ]"

definition initialMetrics :: ModelMetrics where
  "initialMetrics =
     \<lparr> accuracy = 0.87, precision = 0.82, recall = 0.91, f1Score = 0.86,
       lastTrained = 1705276800000, trainingSize = 10000 \<rparr>"

definition newLoanPredictionService :: LoanPredictionService where
  "newLoanPredictionService =
     \<lparr> modelWeights = initialWeights,
       thresholds = initialThresholds,
       metrics = initialMetrics \<rparr>"

subsection \<open>Validation: \<open>LoanPredictionInputSchema.parse\<close>\<close>

text \<open>
  The schema is a zod object. \<open>parse\<close> checks every key, in the order of the schema,
  collects one issue per violated check and throws a \<open>ZodError\<close> holding them when there
  is any; otherwise it returns the parsed object. An issue is modelled by its path (the
  field name) and its kind: \<open>min\<close> and \<open>positive\<close> report \<open>TooSmall\<close>, \<open>max\<close> reports
  \<open>TooBig\<close>, \<open>enum\<close> reports \<open>InvalidEnumValue\<close>. The input is taken as type-correct
  (numbers, strings and a boolean where the schema expects them), which is what the
  parameter type of \<open>predict\<close> says.
\<close>

datatype IssueCode = TooSmall | TooBig | InvalidEnumValue

type_synonym ZodIssue = "string \<times> IssueCode"

type_synonym ZodError = "ZodIssue list"

definition check_min :: "string \<Rightarrow> real \<Rightarrow> real \<Rightarrow> ZodIssue list" where
  "check_min path lo x = (if x < lo then [(path, TooSmall)] else [])"

definition check_max :: "string \<Rightarrow> real \<Rightarrow> real \<Rightarrow> ZodIssue list" where
  "check_max path hi x = (if x > hi then [(path, TooBig)] else [])"

definition check_positive :: "string \<Rightarrow> real \<Rightarrow> ZodIssue list" where
  "check_positive path x = (if x \<le> 0 then [(path, TooSmall)] else [])"

definition check_enum :: "string \<Rightarrow> string list \<Rightarrow> string \<Rightarrow> ZodIssue list" where
  "check_enum path vs x = (if x \<in> set vs then [] else [(path, InvalidEnumValue)])"

definition loanPurposeValues :: "string list" where
  "loanPurposeValues =
     [''home_loan'', ''auto_loan'', ''personal_loan'', ''debt_consolidation'', ''business_loan'']"

definition homeOwnershipValues :: "string list" where
  "homeOwnershipValues = [''own'', ''rent'', ''mortgage'']"

definition verificationStatusValues :: "string list" where
  "verificationStatusValues = [''verified'', ''source_verified'', ''not_verified'']"

definition schemaIssues :: "LoanPredictionInput \<Rightarrow> ZodIssue list" where
  "schemaIssues input =
     check_min ''creditScore'' 300 (creditScore input) @
     check_max ''creditScore'' 850 (creditScore input) @
     check_positive ''annualIncome'' (annualIncome input) @
     check_min ''employmentLength'' 0 (employmentLength input) @
     check_positive ''loanAmount'' (loanAmount input) @
     check_enum ''loanPurpose'' loanPurposeValues (loanPurpose input) @
     check_min ''debtToIncome'' 0 (debtToIncome input) @
     check_max ''debtToIncome'' 1 (debtToIncome input) @
     check_min ''delinquenciesLast2Years'' 0 (delinquenciesLast2Years input) @
     check_min ''inquiriesLast6Months'' 0 (inquiriesLast6Months input) @
     check_enum ''homeOwnership'' homeOwnershipValues (homeOwnership input) @
     check_enum ''verificationStatus'' verificationStatusValues (verificationStatus input)"

definition validateInput :: "LoanPredictionInput \<Rightarrow> ZodError + LoanPredictionInput" where
  "validateInput input =
     (case schemaIssues input of [] \<Rightarrow> Inr input | issue # issues \<Rightarrow> Inl (issue # issues))"

subsection \<open>Score components\<close>

definition calculateCreditScoreComponent :: "real \<Rightarrow> real" where
  "calculateCreditScoreComponent cs =
     (if cs \<ge> 750 then 1.0
      else if cs \<ge> 700 then 0.8
      else if cs \<ge> 650 then 0.6
      else if cs \<ge> 600 then 0.4
      else if cs \<ge> 550 then 0.2
      else 0.1)"

definition calculateDebtToIncomeComponent :: "real \<Rightarrow> real" where
  "calculateDebtToIncomeComponent dti =
     (if dti \<le> 0.15 then 1.0
      else if dti \<le> 0.25 then 0.8
      else if dti \<le> 0.35 then 0.6
      else if dti \<le> 0.43 then 0.4
      else 0.1)"

definition calculateIncomeComponent :: "real \<Rightarrow> real" where
  "calculateIncomeComponent income =
     (if income \<ge> 100000 then 1.0
      else if income \<ge> 75000 then 0.8
      else if income \<ge> 50000 then 0.6
      else if income \<ge> 35000 then 0.4
      else if income \<ge> 25000 then 0.2
      else 0.1)"

definition calculateEmploymentComponent :: "real \<Rightarrow> real" where
  "calculateEmploymentComponent years =
     (if years \<ge> 5 then 1.0
      else if years \<ge> 3 then 0.8
      else if years \<ge> 2 then 0.6
      else if years \<ge> 1 then 0.4
      else 0.2)"

text \<open>
  \<open>loanAmount / income\<close>: the callers pass a validated input, whose income is positive.
\<close>

definition calculateLoanAmountComponent :: "real \<Rightarrow> real \<Rightarrow> real" where
  "calculateLoanAmountComponent amount income =
     (let loanToIncomeRatio = amount / income in
      if loanToIncomeRatio \<le> 0.2 then 1.0
      else if loanToIncomeRatio \<le> 0.3 then 0.8
      else if loanToIncomeRatio \<le> 0.4 then 0.6
      else if loanToIncomeRatio \<le> 0.5 then 0.4
      else 0.2)"

definition calculateHomeOwnershipBonus :: "string \<Rightarrow> real" where
  "calculateHomeOwnershipBonus h =
     (if h = ''own'' then 20
      else if h = ''mortgage'' then 15
      else if h = ''rent'' then 5
      else 0)"

definition calculateVerificationBonus :: "string \<Rightarrow> real" where
  "calculateVerificationBonus s =
     (if s = ''verified'' then 15
      else if s = ''source_verified'' then 10
      else if s = ''not_verified'' then 0
      else 0)"

definition scoreToTprobability :: "real \<Rightarrow> real" where
  "scoreToTprobability sc =
     (let normalizedScore = (sc - 650) / 200 in 1 / (1 + exp (- normalizedScore)))"

subsection \<open>Confidence, reasons and factor lists\<close>

definition calculateConfidence :: "real \<Rightarrow> LoanPredictionInput \<Rightarrow> Confidence" where
  "calculateConfidence sc input =
     (let confidenceFactors =
        (if creditScore input \<ge> 750 \<or> creditScore input \<le> 550 then 1 else 0) +
        (if debtToIncome input \<le> 0.2 \<or> debtToIncome input \<ge> 0.4 then 1 else 0) +
        (if annualIncome input \<ge> 100000 \<or> annualIncome input \<le> 30000 then 1 else 0) +
        (if employmentLength input \<ge> 5 \<or> employmentLength input < 1 then 1 else 0) +
        (if hasDerogatory input then 1 else 0) +
        (if delinquenciesLast2Years input \<ge> 3 then 1 else 0) +
        (if sc \<ge> 800 \<or> sc \<le> 400 then 1 else (0::nat))
      in if confidenceFactors \<ge> 4 then High
         else if confidenceFactors \<ge> 2 then Medium
         else Low)"

text \<open>\<open>push_if c s\<close> is \<open>if (c) list.push(s)\<close>, as a list to append.\<close>

definition push_if :: "bool \<Rightarrow> string \<Rightarrow> string list" where
  "push_if c s = (if c then [s] else [])"

definition generateReasons :: "LoanPredictionInput \<Rightarrow> real \<Rightarrow> Prediction \<Rightarrow> string list" where
  "generateReasons input sc pred =
     (if pred = Approved then
        (if creditScore input \<ge> 750
           then [''Excellent credit score demonstrates strong payment history'']
         else if creditScore input \<ge> 700
           then [''Good credit score indicates reliable payment behavior'']
         else []) @
        push_if (debtToIncome input \<le> 0.25)
          ''Low debt-to-income ratio shows strong financial capacity'' @
        push_if (annualIncome input \<ge> 75000)
          ''High annual income provides strong repayment ability'' @
        push_if (employmentLength input \<ge> 3)
          ''Stable employment history reduces risk'' @
        push_if (\<not> hasDerogatory input)
          ''Clean credit history with no major derogatory marks'' @
        push_if (homeOwnership input = ''own'')
          ''Home ownership indicates financial stability'' @
        push_if (verificationStatus input = ''verified'')
          ''Verified income information increases confidence''
      else
        push_if (creditScore input < 600)
          ''Credit score below acceptable threshold indicates high risk'' @
        push_if (debtToIncome input > 0.43)
          ''High debt-to-income ratio exceeds lending guidelines'' @
        push_if (annualIncome input < 30000)
          ''Low income may not support loan repayment'' @
        push_if (hasDerogatory input)
          ''Derogatory marks on credit report raise concerns'' @
        push_if (delinquenciesLast2Years input \<ge> 2)
          ''Recent payment delinquencies indicate repayment risk'' @
        push_if (inquiriesLast6Months input \<ge> 5)
          ''Multiple recent credit inquiries suggest financial stress'' @
        push_if (employmentLength input < 1)
          ''Short employment history increases income stability risk'' @
        (let loanToIncomeRatio = loanAmount input / annualIncome input in
         push_if (loanToIncomeRatio > 0.5)
           ''Loan amount is too high relative to annual income''))"

definition identifyRiskFactors :: "LoanPredictionInput \<Rightarrow> string list" where
  "identifyRiskFactors input =
     push_if (creditScore input < 650) ''Below-average credit score'' @
     push_if (debtToIncome input > 0.35) ''High debt-to-income ratio'' @
     push_if (hasDerogatory input) ''Derogatory credit marks'' @
     push_if (delinquenciesLast2Years input > 0) ''Recent payment delinquencies'' @
     push_if (inquiriesLast6Months input > 3) ''Multiple recent credit inquiries'' @
     push_if (employmentLength input < 2) ''Short employment history'' @
     push_if (annualIncome input < 40000) ''Lower income level'' @
     push_if (verificationStatus input = ''not_verified'') ''Unverified income''"

definition identifyPositiveFactors :: "LoanPredictionInput \<Rightarrow> string list" where
  "identifyPositiveFactors input =
     push_if (creditScore input \<ge> 750) ''Excellent credit score'' @
     push_if (creditScore input \<ge> 700 \<and> creditScore input < 750) ''Good credit score'' @
     push_if (debtToIncome input \<le> 0.25) ''Low debt-to-income ratio'' @
     push_if (annualIncome input \<ge> 75000) ''High annual income'' @
     push_if (employmentLength input \<ge> 5) ''Long employment history'' @
     push_if (\<not> hasDerogatory input) ''Clean credit history'' @
     push_if (delinquenciesLast2Years input = 0) ''No recent delinquencies'' @
     push_if (homeOwnership input = ''own'') ''Home ownership'' @
     push_if (verificationStatus input = ''verified'') ''Verified income''"

subsection \<open>\<open>predict\<close>\<close>

text \<open>
  \<open>rawScore\<close> is the local constant of that name in \<open>predict\<close>, summed over exact reals.
  A product of the source that overflows has no counterpart here; \<open>rawScore_ieee\<close> below
  keeps it.
\<close>

definition rawScore :: "LoanPredictionService \<Rightarrow> LoanPredictionInput \<Rightarrow> real" where
  "rawScore this validatedInput =
     (let creditScoreComponent = calculateCreditScoreComponent (creditScore validatedInput);
          debtToIncomeComponent = calculateDebtToIncomeComponent (debtToIncome validatedInput);
          incomeComponent = calculateIncomeComponent (annualIncome validatedInput);
          employmentComponent = calculateEmploymentComponent (employmentLength validatedInput);
          derogatoryPenalty = (if hasDerogatory validatedInput then - 50 else 0);
          delinquencyPenalty = delinquenciesLast2Years validatedInput * (- 10);
          inquiryPenalty = inquiriesLast6Months validatedInput * (- 5);
          loanAmountComponent =
            calculateLoanAmountComponent (loanAmount validatedInput) (annualIncome validatedInput);
          homeOwnershipBonus = calculateHomeOwnershipBonus (homeOwnership validatedInput);
          verificationBonus = calculateVerificationBonus (verificationStatus validatedInput)
      in (creditScoreComponent * w_creditScore (modelWeights this) +
          debtToIncomeComponent * w_debtToIncome (modelWeights this) +
          incomeComponent * w_annualIncome (modelWeights this) +
          employmentComponent * w_employmentLength (modelWeights this) +
          derogatoryPenalty * w_hasDerogatory (modelWeights this) +
          delinquencyPenalty * w_delinquenciesLast2Years (modelWeights this) +
          inquiryPenalty * w_inquiriesLast6Months (modelWeights this) +
          loanAmountComponent * w_loanAmount (modelWeights this) +
          homeOwnershipBonus * w_homeOwnership (modelWeights this) +
          verificationBonus * w_verificationStatus (modelWeights this)) * 1000)"

text \<open>
  \<open>clampedScore\<close> is the local constant \<open>score\<close> of \<open>predict\<close>, before it is rounded
  for the result: \<open>Math.max(0, Math.min(1000, rawScore))\<close>. Over reals it always lies in
  \<open>[0, 1000]\<close>; the source returns NaN for a raw score that is NaN, which
  \<open>clampedScore_ieee\<close> below keeps.
\<close>

definition clampedScore :: "LoanPredictionService \<Rightarrow> LoanPredictionInput \<Rightarrow> real" where
  "clampedScore this validatedInput = max 0 (min 1000 (rawScore this validatedInput))"

definition math_round :: "real \<Rightarrow> real" where
  "math_round x = of_int \<lfloor>x + 1 / 2\<rfloor>"

text \<open>
  \<open>predict\<close> reads the fields of the service and assigns none, so the model returns
  the result alone. A \<open>ZodError\<close> thrown by \<open>validateInput\<close> leaves \<open>predict\<close> as it is.
\<close>

definition predict :: "LoanPredictionService \<Rightarrow> LoanPredictionInput \<Rightarrow> ZodError + PredictionResult" where
  "predict this input =
     (case validateInput input of
        Inl e \<Rightarrow> Inl e
      | Inr validatedInput \<Rightarrow>
          (let sc = clampedScore this validatedInput;
               prob = scoreToTprobability sc;
               pred = (if prob \<ge> 0.5 then Approved else Denied);
               conf = calculateConfidence sc validatedInput
           in Inr \<lparr> prediction = pred,
                    probability = prob,
                    confidence = conf,
                    score = math_round sc,
                    reasons = generateReasons validatedInput sc pred,
                    featureImportance = modelWeights this,
                    riskFactors = identifyRiskFactors validatedInput,
                    positiveFactors = identifyPositiveFactors validatedInput \<rparr>))"

subsection \<open>Doubles with overflow and NaN\<close>

text \<open>
  A double is a finite number, one of the two infinities, or NaN. Finite doubles are
  taken as reals and a finite result is not rounded; a result whose magnitude reaches
  \<open>2 ^ 1024 - 2 ^ 970\<close>, the least that rounds beyond the largest double, is an infinity.
  The sign of a zero is not modelled: a zero divisor counts as \<open>+0\<close>.
\<close>

datatype Double = Finite real | PosInfinity | NegInfinity | NaN

definition overflow_threshold :: real where
  "overflow_threshold = 2 ^ 1024 - 2 ^ 970"

definition double_result :: "real \<Rightarrow> Double" where
  "double_result x =
     (if overflow_threshold \<le> x then PosInfinity
      else if x \<le> - overflow_threshold then NegInfinity
      else Finite x)"

fun double_sign :: "Double \<Rightarrow> real" where
  "double_sign (Finite x) = sgn x"
| "double_sign PosInfinity = 1"
| "double_sign NegInfinity = - 1"
| "double_sign NaN = 0"

definition signed_infinity :: "real \<Rightarrow> Double" where
  "signed_infinity s = (if s = 0 then NaN else if 0 < s then PosInfinity else NegInfinity)"

fun double_neg :: "Double \<Rightarrow> Double" where
  "double_neg (Finite x) = Finite (- x)"
| "double_neg PosInfinity = NegInfinity"
| "double_neg NegInfinity = PosInfinity"
| "double_neg NaN = NaN"

text \<open>
  Sums, products and quotients of doubles: NaN spreads; the sum of the two infinities,
  the product of an infinity and zero, the quotient of two infinities and the quotient
  of two zeros are NaN; and a finite result may overflow.
\<close>

fun double_add :: "Double \<Rightarrow> Double \<Rightarrow> Double" where
  "double_add NaN b = NaN"
| "double_add a NaN = NaN"
| "double_add (Finite x) (Finite y) = double_result (x + y)"
| "double_add PosInfinity NegInfinity = NaN"
| "double_add NegInfinity PosInfinity = NaN"
| "double_add PosInfinity b = PosInfinity"
| "double_add NegInfinity b = NegInfinity"
| "double_add (Finite x) b = b"

fun double_mul :: "Double \<Rightarrow> Double \<Rightarrow> Double" where
  "double_mul NaN b = NaN"
| "double_mul a NaN = NaN"
| "double_mul (Finite x) (Finite y) = double_result (x * y)"
| "double_mul a b = signed_infinity (double_sign a * double_sign b)"

fun double_div :: "Double \<Rightarrow> Double \<Rightarrow> Double" where
  "double_div NaN b = NaN"
| "double_div a NaN = NaN"
| "double_div (Finite x) (Finite y) =
     (if y = 0 then signed_infinity (sgn x) else double_result (x / y))"
| "double_div (Finite x) b = Finite 0"
| "double_div a (Finite y) = signed_infinity (double_sign a * (if y < 0 then - 1 else 1))"
| "double_div a b = NaN"

text \<open>\<open>a <= b\<close> on doubles; every comparison with NaN is false. \<open>a >= b\<close> is \<open>b <= a\<close>.\<close>

fun double_le :: "Double \<Rightarrow> Double \<Rightarrow> bool" where
  "double_le NaN b = False"
| "double_le a NaN = False"
| "double_le NegInfinity b = True"
| "double_le a PosInfinity = True"
| "double_le (Finite x) (Finite y) = (x \<le> y)"
| "double_le a b = False"

text \<open>\<open>Math.min\<close>, \<open>Math.max\<close>, \<open>Math.exp\<close> and \<open>Math.round\<close>; each returns NaN for NaN.\<close>

definition math_min :: "Double \<Rightarrow> Double \<Rightarrow> Double" where
  "math_min a b = (if a = NaN \<or> b = NaN then NaN else if double_le a b then a else b)"

definition math_max :: "Double \<Rightarrow> Double \<Rightarrow> Double" where
  "math_max a b = (if a = NaN \<or> b = NaN then NaN else if double_le a b then b else a)"

fun math_exp :: "Double \<Rightarrow> Double" where
  "math_exp (Finite x) = double_result (exp x)"
| "math_exp PosInfinity = PosInfinity"
| "math_exp NegInfinity = Finite 0"
| "math_exp NaN = NaN"

fun math_round_ieee :: "Double \<Rightarrow> Double" where
  "math_round_ieee (Finite x) = Finite (math_round x)"
| "math_round_ieee a = a"

subsection \<open>\<open>predict\<close> over doubles\<close>

text \<open>
  The same functions as above, line by line, with the arithmetic of \<open>predict\<close> done on
  doubles. The inputs and the weights are finite doubles; the band functions compare
  finite numbers and return constants, so they are used as they are. The score
  parameter of \<open>generateReasons\<close> is not read by its body (lemma
  \<open>generateReasons_score_unused\<close>), so 0 stands for it.
\<close>

record PredictionResultIeee =
  prediction_ieee :: Prediction
  probability_ieee :: Double
  confidence_ieee :: Confidence
  score_ieee :: Double
  reasons_ieee :: "string list"
  featureImportance_ieee :: FeatureImportance
  riskFactors_ieee :: "string list"
  positiveFactors_ieee :: "string list"

definition rawScore_ieee :: "LoanPredictionService \<Rightarrow> LoanPredictionInput \<Rightarrow> Double" where
  "rawScore_ieee this validatedInput =
     (let creditScoreComponent =
            Finite (calculateCreditScoreComponent (creditScore validatedInput));
          debtToIncomeComponent =
            Finite (calculateDebtToIncomeComponent (debtToIncome validatedInput));
          incomeComponent = Finite (calculateIncomeComponent (annualIncome validatedInput));
          employmentComponent =
            Finite (calculateEmploymentComponent (employmentLength validatedInput));
          derogatoryPenalty = Finite (if hasDerogatory validatedInput then - 50 else 0);
          delinquencyPenalty =
            double_mul (Finite (delinquenciesLast2Years validatedInput)) (Finite (- 10));
          inquiryPenalty =
            double_mul (Finite (inquiriesLast6Months validatedInput)) (Finite (- 5));
          loanAmountComponent =
            Finite (calculateLoanAmountComponent (loanAmount validatedInput)
                      (annualIncome validatedInput));
          homeOwnershipBonus = Finite (calculateHomeOwnershipBonus (homeOwnership validatedInput));
          verificationBonus =
            Finite (calculateVerificationBonus (verificationStatus validatedInput))
      in double_mul
           (double_add (double_add (double_add (double_add (double_add (double_add
              (double_add (double_add (double_add
                (double_mul creditScoreComponent (Finite (w_creditScore (modelWeights this))))
                (double_mul debtToIncomeComponent (Finite (w_debtToIncome (modelWeights this)))))
                (double_mul incomeComponent (Finite (w_annualIncome (modelWeights this)))))
                (double_mul employmentComponent
                   (Finite (w_employmentLength (modelWeights this)))))
                (double_mul derogatoryPenalty (Finite (w_hasDerogatory (modelWeights this)))))
                (double_mul delinquencyPenalty
                   (Finite (w_delinquenciesLast2Years (modelWeights this)))))
                (double_mul inquiryPenalty
                   (Finite (w_inquiriesLast6Months (modelWeights this)))))
                (double_mul loanAmountComponent (Finite (w_loanAmount (modelWeights this)))))
                (double_mul homeOwnershipBonus (Finite (w_homeOwnership (modelWeights this)))))
                (double_mul verificationBonus
                   (Finite (w_verificationStatus (modelWeights this)))))
           (Finite 1000))"

definition clampedScore_ieee :: "LoanPredictionService \<Rightarrow> LoanPredictionInput \<Rightarrow> Double" where
  "clampedScore_ieee this validatedInput =
     math_max (Finite 0) (math_min (Finite 1000) (rawScore_ieee this validatedInput))"

definition scoreToTprobability_ieee :: "Double \<Rightarrow> Double" where
  "scoreToTprobability_ieee sc =
     (let normalizedScore = double_div (double_add sc (double_neg (Finite 650))) (Finite 200)
      in double_div (Finite 1) (double_add (Finite 1) (math_exp (double_neg normalizedScore))))"

definition calculateConfidence_ieee :: "Double \<Rightarrow> LoanPredictionInput \<Rightarrow> Confidence" where
  "calculateConfidence_ieee sc input =
     (let confidenceFactors =
        (if creditScore input \<ge> 750 \<or> creditScore input \<le> 550 then 1 else 0) +
        (if debtToIncome input \<le> 0.2 \<or> debtToIncome input \<ge> 0.4 then 1 else 0) +
        (if annualIncome input \<ge> 100000 \<or> annualIncome input \<le> 30000 then 1 else 0) +
        (if employmentLength input \<ge> 5 \<or> employmentLength input < 1 then 1 else 0) +
        (if hasDerogatory input then 1 else 0) +
        (if delinquenciesLast2Years input \<ge> 3 then 1 else 0) +
        (if double_le (Finite 800) sc \<or> double_le sc (Finite 400) then 1 else (0::nat))
      in if confidenceFactors \<ge> 4 then High
         else if confidenceFactors \<ge> 2 then Medium
         else Low)"

definition predict_ieee ::
  "LoanPredictionService \<Rightarrow> LoanPredictionInput \<Rightarrow> ZodError + PredictionResultIeee" where
  "predict_ieee this input =
     (case validateInput input of
        Inl e \<Rightarrow> Inl e
      | Inr validatedInput \<Rightarrow>
          (let sc = clampedScore_ieee this validatedInput;
               prob = scoreToTprobability_ieee sc;
               pred = (if double_le (Finite 0.5) prob then Approved else Denied);
               conf = calculateConfidence_ieee sc validatedInput
           in Inr \<lparr> prediction_ieee = pred,
                    probability_ieee = prob,
                    confidence_ieee = conf,
                    score_ieee = math_round_ieee sc,
                    reasons_ieee = generateReasons validatedInput 0 pred,
                    featureImportance_ieee = modelWeights this,
                    riskFactors_ieee = identifyRiskFactors validatedInput,
                    positiveFactors_ieee = identifyPositiveFactors validatedInput \<rparr>))"

subsection \<open>Stored loan applications\<close>

text \<open>
  Modelled from the spec: the row type \<open>Database['public']['Tables']['loan_applications']['Row']\<close>
  of \<open>@/lib/database-types\<close>, which is not among the sources. The columns are those that
  \<open>convertLoanApplicationToPredictionInput\<close> reads; each is nullable, since the function
  guards every one of them against a missing value: \<open>None\<close> is \<open>null\<close>.
\<close>

record LoanApplication =
  credit_score :: "real option"
  annual_income :: "real option"
  monthly_debt_payment :: "real option"
  employment_length :: "real option"
  loan_amount :: "real option"
  loan_purpose :: "string option"
  has_derogatory :: "bool option"
  delinquencies_last_2years :: "real option"
  inquiries_last_6months :: "real option"
  home_ownership :: "string option"
  verification_status :: "string option"

text \<open>
  JavaScript truthiness of a nullable column: \<open>null\<close>, \<open>0\<close>, the empty string and
  \<open>false\<close> are falsy. \<open>a || d\<close> is \<open>a\<close> when \<open>a\<close> is truthy and \<open>d\<close> otherwise.
\<close>

definition truthy_num :: "real option \<Rightarrow> bool" where
  "truthy_num a = (case a of None \<Rightarrow> False | Some x \<Rightarrow> x \<noteq> 0)"

definition or_num :: "real option \<Rightarrow> real \<Rightarrow> real" where
  "or_num a d = (case a of None \<Rightarrow> d | Some x \<Rightarrow> if x = 0 then d else x)"

definition or_str :: "string option \<Rightarrow> string \<Rightarrow> string" where
  "or_str a d = (case a of None \<Rightarrow> d | Some x \<Rightarrow> if x = [] then d else x)"

definition or_bool :: "bool option \<Rightarrow> bool \<Rightarrow> bool" where
  "or_bool a d = (case a of None \<Rightarrow> d | Some x \<Rightarrow> if x then x else d)"

text \<open>
  In the quotient below \<open>the\<close> is applied to columns that \<open>truthy_num\<close> has just found to be
  present, as the conditional expression of the source does.
\<close>

definition convertLoanApplicationToPredictionInput :: "LoanApplication \<Rightarrow> LoanPredictionInput" where
  "convertLoanApplicationToPredictionInput application =
     (let dti =
        (if truthy_num (monthly_debt_payment application) \<and> truthy_num (annual_income application)
         then (the (monthly_debt_payment application) * 12) / the (annual_income application)
         else 0)
      in \<lparr> creditScore = or_num (credit_score application) 650,
           annualIncome = or_num (annual_income application) 50000,
           employmentLength = or_num (employment_length application) 0,
           loanAmount = or_num (loan_amount application) 10000,
           loanPurpose = or_str (loan_purpose application) ''personal_loan'',
           debtToIncome = dti,
           hasDerogatory = or_bool (has_derogatory application) False,
           delinquenciesLast2Years = or_num (delinquencies_last_2years application) 0,
           inquiriesLast6Months = or_num (inquiries_last_6months application) 0,
           homeOwnership = or_str (home_ownership application) ''rent'',
           verificationStatus = or_str (verification_status application) ''not_verified'' \<rparr>)"

subsection \<open>\<open>retrainModel\<close>\<close>

text \<open>
  The values \<open>Math.random()\<close> returns during one call of \<open>retrainModel\<close>, in the order
  of the calls: four for the metrics, one for the training size (drawn only when no
  training data is given), and one per weight, in the key order of \<open>modelWeights\<close>.
\<close>

record RandomDraws =
  r_accuracy :: real
  r_precision :: real
  r_recall :: real
  r_f1Score :: real
  r_trainingSize :: real
  r_weights :: FeatureImportance

definition adjustWeight :: "real \<Rightarrow> real \<Rightarrow> real" where
  "adjustWeight currentWeight rnd =
     (let weightAdjustment = 0.05;
          adjustment = (rnd - 0.5) * weightAdjustment
      in max 0 (currentWeight + adjustment))"

definition adjustWeights :: "FeatureImportance \<Rightarrow> FeatureImportance \<Rightarrow> FeatureImportance" where
  "adjustWeights w r =
     \<lparr> w_creditScore = adjustWeight (w_creditScore w) (w_creditScore r),
       w_debtToIncome = adjustWeight (w_debtToIncome w) (w_debtToIncome r),
       w_annualIncome = adjustWeight (w_annualIncome w) (w_annualIncome r),
       w_employmentLength = adjustWeight (w_employmentLength w) (w_employmentLength r),
       w_hasDerogatory = adjustWeight (w_hasDerogatory w) (w_hasDerogatory r),
       w_delinquenciesLast2Years =
         adjustWeight (w_delinquenciesLast2Years w) (w_delinquenciesLast2Years r),
       w_inquiriesLast6Months = adjustWeight (w_inquiriesLast6Months w) (w_inquiriesLast6Months r),
       w_loanAmount = adjustWeight (w_loanAmount w) (w_loanAmount r),
       w_homeOwnership = adjustWeight (w_homeOwnership w) (w_homeOwnership r),
       w_verificationStatus = adjustWeight (w_verificationStatus w) (w_verificationStatus r) \<rparr>"

text \<open>\<open>Object.values(w).reduce((sum, weight) => sum + weight, 0)\<close>.\<close>

definition totalWeight :: "FeatureImportance \<Rightarrow> real" where
  "totalWeight w =
     0 + w_creditScore w + w_debtToIncome w + w_annualIncome w + w_employmentLength w +
     w_hasDerogatory w + w_delinquenciesLast2Years w + w_inquiriesLast6Months w +
     w_loanAmount w + w_homeOwnership w + w_verificationStatus w"

text \<open>
  The normalisation divides every weight by the total. When the total is 0 every
  quotient is \<open>0 / 0\<close>, NaN in JavaScript, which no real number stands for: the model
  returns \<open>None\<close> there.
\<close>

definition normalizeWeights :: "FeatureImportance \<Rightarrow> FeatureImportance option" where
  "normalizeWeights w =
     (let total = totalWeight w in
      if total = 0 then None
      else Some
        \<lparr> w_creditScore = w_creditScore w / total,
          w_debtToIncome = w_debtToIncome w / total,
          w_annualIncome = w_annualIncome w / total,
          w_employmentLength = w_employmentLength w / total,
          w_hasDerogatory = w_hasDerogatory w / total,
          w_delinquenciesLast2Years = w_delinquenciesLast2Years w / total,
          w_inquiriesLast6Months = w_inquiriesLast6Months w / total,
          w_loanAmount = w_loanAmount w / total,
          w_homeOwnership = w_homeOwnership w / total,
          w_verificationStatus = w_verificationStatus w / total \<rparr>)"

text \<open>
  \<open>trainingData?.length || this.metrics.trainingSize + Math.floor(Math.random() * 1000)\<close>:
  the length when training data is given and not empty.
\<close>

definition newTrainingSize :: "LoanApplication list option \<Rightarrow> real \<Rightarrow> real \<Rightarrow> real" where
  "newTrainingSize trainingData current rnd =
     (case trainingData of
        None \<Rightarrow> current + of_int \<lfloor>rnd * 1000\<rfloor>
      | Some rows \<Rightarrow>
          if length rows = 0 then current + of_int \<lfloor>rnd * 1000\<rfloor> else real (length rows))"

text \<open>
  \<open>retrainModel\<close>, with the clock (\<open>now\<close>, what \<open>new Date()\<close> reads) and the random
  draws as arguments. It returns the new metrics and the updated service; the two-second
  delay is not modelled.
\<close>

definition retrainModel ::
  "LoanPredictionService \<Rightarrow> int \<Rightarrow> RandomDraws \<Rightarrow> LoanApplication list option
     \<Rightarrow> (ModelMetrics \<times> LoanPredictionService) option" where
  "retrainModel this now rnd trainingData =
     (let m = metrics this;
          m' = \<lparr> accuracy = min 0.95 (accuracy m + r_accuracy rnd * 0.02),
                 precision = min 0.95 (precision m + r_precision rnd * 0.02),
                 recall = min 0.95 (recall m + r_recall rnd * 0.02),
                 f1Score = min 0.95 (f1Score m + r_f1Score rnd * 0.02),
                 lastTrained = now,
                 trainingSize = newTrainingSize trainingData (trainingSize m) (r_trainingSize rnd) \<rparr>
      in case normalizeWeights (adjustWeights (modelWeights this) (r_weights rnd)) of
           None \<Rightarrow> None
         | Some w' \<Rightarrow> Some (m', this\<lparr> metrics := m', modelWeights := w' \<rparr>))"

text \<open>\<open>Math.random()\<close> returns a number in \<open>[0, 1)\<close>.\<close>

definition unit_draw :: "real \<Rightarrow> bool" where
  "unit_draw r = (0 \<le> r \<and> r < 1)"

definition validDraws :: "RandomDraws \<Rightarrow> bool" where
  "validDraws rnd =
     (unit_draw (r_accuracy rnd) \<and> unit_draw (r_precision rnd) \<and> unit_draw (r_recall rnd) \<and>
      unit_draw (r_f1Score rnd) \<and> unit_draw (r_trainingSize rnd) \<and>
      unit_draw (w_creditScore (r_weights rnd)) \<and>
      unit_draw (w_debtToIncome (r_weights rnd)) \<and>
      unit_draw (w_annualIncome (r_weights rnd)) \<and>
      unit_draw (w_employmentLength (r_weights rnd)) \<and>
      unit_draw (w_hasDerogatory (r_weights rnd)) \<and>
      unit_draw (w_delinquenciesLast2Years (r_weights rnd)) \<and>
      unit_draw (w_inquiriesLast6Months (r_weights rnd)) \<and>
      unit_draw (w_loanAmount (r_weights rnd)) \<and>
      unit_draw (w_homeOwnership (r_weights rnd)) \<and>
      unit_draw (w_verificationStatus (r_weights rnd)))"

text \<open>
  The states of the exported singleton: the constructed service, and what any number
  of \<open>retrainModel\<close> calls make of it. No other method assigns a field.
\<close>

inductive reachable :: "LoanPredictionService \<Rightarrow> bool" where
  reachable_new: "reachable newLoanPredictionService"
| reachable_retrain:
    "reachable this \<Longrightarrow> validDraws rnd \<Longrightarrow> retrainModel this now rnd trainingData = Some (m, this')
     \<Longrightarrow> reachable this'"

subsection \<open>\<open>calculateDrift\<close>\<close>

record ConfidenceDistribution =
  high :: real
  medium :: real
  low :: real

record DriftReport =
  approvalRate :: real
  averageScore :: real
  confidenceDistribution :: ConfidenceDistribution
  needsRetraining :: bool

text \<open>\<open>now\<close> is what \<open>new Date().getTime()\<close> reads.\<close>

definition calculateDrift :: "LoanPredictionService \<Rightarrow> int \<Rightarrow> PredictionResult list \<Rightarrow> DriftReport" where
  "calculateDrift this now recentPredictions =
     (if length recentPredictions = 0 then
        \<lparr> approvalRate = 0,
          averageScore = 0,
          confidenceDistribution = \<lparr> high = 0, medium = 0, low = 0 \<rparr>,
          needsRetraining = False \<rparr>
      else
        (let n = real (length recentPredictions);
             rate = real (length (filter (\<lambda>p. prediction p = Approved) recentPredictions)) / n;
             avg = foldl (\<lambda>sum p. sum + score p) 0 recentPredictions / n;
             dist =
               \<lparr> high = real (length (filter (\<lambda>p. confidence p = High) recentPredictions)) / n,
                 medium = real (length (filter (\<lambda>p. confidence p = Medium) recentPredictions)) / n,
                 low = real (length (filter (\<lambda>p. confidence p = Low) recentPredictions)) / n \<rparr>;
             retrain =
               (\<bar>rate - 0.65\<bar> > 0.15 \<or>
                low dist > 0.3 \<or>
                now - lastTrained (metrics this) > 90 * 24 * 60 * 60 * 1000)
         in \<lparr> approvalRate = rate,
              averageScore = avg,
              confidenceDistribution = dist,
              needsRetraining = retrain \<rparr>))"

subsection \<open>Concrete profiles\<close>

text \<open>
  Scenario A and scenario B of the specification leave the loan purpose open, so it is
  an argument. \<open>boundaryProfile\<close> is a valid profile whose score is exactly 650.
\<close>

definition scenarioA :: "string \<Rightarrow> LoanPredictionInput" where
  "scenarioA purpose =
     \<lparr> creditScore = 780, annualIncome = 90000, employmentLength = 6, loanAmount = 15000,
       loanPurpose = purpose, debtToIncome = 0.18, hasDerogatory = False,
       delinquenciesLast2Years = 0, inquiriesLast6Months = 1,
       homeOwnership = ''own'', verificationStatus = ''verified'' \<rparr>"

definition scenarioB :: "string \<Rightarrow> LoanPredictionInput" where
  "scenarioB purpose =
     \<lparr> creditScore = 540, annualIncome = 22000, employmentLength = 0.5, loanAmount = 20000,
       loanPurpose = purpose, debtToIncome = 0.55, hasDerogatory = True,
       delinquenciesLast2Years = 3, inquiriesLast6Months = 6,
       homeOwnership = ''rent'', verificationStatus = ''not_verified'' \<rparr>"

definition boundaryProfile :: LoanPredictionInput where
  "boundaryProfile =
     \<lparr> creditScore = 750, annualIncome = 100000, employmentLength = 5, loanAmount = 20000,
       loanPurpose = ''personal_loan'', debtToIncome = 0.15, hasDerogatory = False,
       delinquenciesLast2Years = 0, inquiriesLast6Months = 2,
       homeOwnership = ''own'', verificationStatus = ''not_verified'' \<rparr>"

text \<open>What \<open>predict\<close> returns for \<open>boundaryProfile\<close> on the constructed service.\<close>

definition boundaryResult :: PredictionResult where
  "boundaryResult =
     \<lparr> prediction = Approved, probability = 0.5, confidence = High, score = 650,
       reasons =
         [''Excellent credit score demonstrates strong payment history'',
          ''Low debt-to-income ratio shows strong financial capacity'',
          ''High annual income provides strong repayment ability'',
          ''Stable employment history reduces risk'',
          ''Clean credit history with no major derogatory marks'',
          ''Home ownership indicates financial stability''],
       featureImportance = initialWeights,
       riskFactors = [''Unverified income''],
       positiveFactors =
         [''Excellent credit score'', ''Low debt-to-income ratio'', ''High annual income'',
          ''Long employment history'', ''Clean credit history'', ''No recent delinquencies'',
          ''Home ownership''] \<rparr>"

text \<open>
  A profile with annual income 0 and one with a fractional credit score; a stored
  application whose columns are all \<open>null\<close>; two prediction results for \<open>calculateDrift\<close>.
\<close>

definition zeroIncomeProfile :: LoanPredictionInput where
  "zeroIncomeProfile = (scenarioA ''personal_loan'')\<lparr>annualIncome := 0\<rparr>"

definition fractionalProfile :: LoanPredictionInput where
  "fractionalProfile = (scenarioA ''personal_loan'')\<lparr>creditScore := 700.5\<rparr>"

definition nullApplication :: LoanApplication where
  "nullApplication =
     \<lparr> credit_score = None, annual_income = None, monthly_debt_payment = None,
       employment_length = None, loan_amount = None, loan_purpose = None,
       has_derogatory = None, delinquencies_last_2years = None,
       inquiries_last_6months = None, home_ownership = None, verification_status = None \<rparr>"

definition sampleApproved :: PredictionResult where
  "sampleApproved =
     \<lparr> prediction = Approved, probability = 0.5, confidence = High, score = 650,
       reasons = [], featureImportance = initialWeights, riskFactors = [],
       positiveFactors = [] \<rparr>"

definition sampleDenied :: PredictionResult where
  "sampleDenied =
     \<lparr> prediction = Denied, probability = 0.25, confidence = Low, score = 430,
       reasons = [], featureImportance = initialWeights, riskFactors = [],
       positiveFactors = [] \<rparr>"

subsection \<open>A service with a zero weight and a profile with a huge count\<close>

text \<open>
  \<open>zeroInquiryDraws\<close> are draws of \<open>Math.random\<close>: 0 for the metrics and for the weight of
  the inquiries, 0.5 (no adjustment) for the other weights. \<open>retrainedOnce\<close> and
  \<open>zeroInquiryService\<close> are the service after one and after two \<open>retrainModel\<close> calls
  with these draws: the weight of the inquiries falls from 0.03 to \<open>1 / 197\<close> and then to
  exactly 0 (lemmas \<open>retrain_first\<close> and \<open>retrain_second\<close> below).
\<close>

definition zeroInquiryDraws :: RandomDraws where
  "zeroInquiryDraws =
     \<lparr> r_accuracy = 0, r_precision = 0, r_recall = 0, r_f1Score = 0, r_trainingSize = 0,
       r_weights =
         \<lparr> w_creditScore = 0.5, w_debtToIncome = 0.5, w_annualIncome = 0.5,
           w_employmentLength = 0.5, w_hasDerogatory = 0.5, w_delinquenciesLast2Years = 0.5,
           w_inquiriesLast6Months = 0, w_loanAmount = 0.5, w_homeOwnership = 0.5,
           w_verificationStatus = 0.5 \<rparr> \<rparr>"

definition retrainedOnce :: LoanPredictionService where
  "retrainedOnce =
     \<lparr> modelWeights =
         \<lparr> w_creditScore = 70 / 197, w_debtToIncome = 50 / 197, w_annualIncome = 30 / 197,
           w_employmentLength = 16 / 197, w_hasDerogatory = 14 / 197,
           w_delinquenciesLast2Years = 10 / 197, w_inquiriesLast6Months = 1 / 197,
           w_loanAmount = 4 / 197, w_homeOwnership = 1 / 197, w_verificationStatus = 1 / 197 \<rparr>,
       thresholds = initialThresholds,
       metrics = initialMetrics\<lparr>lastTrained := 1710000000000\<rparr> \<rparr>"

definition zeroInquiryService :: LoanPredictionService where
  "zeroInquiryService =
     \<lparr> modelWeights =
         \<lparr> w_creditScore = 5 / 14, w_debtToIncome = 25 / 98, w_annualIncome = 15 / 98,
           w_employmentLength = 4 / 49, w_hasDerogatory = 1 / 14,
           w_delinquenciesLast2Years = 5 / 98, w_inquiriesLast6Months = 0,
           w_loanAmount = 1 / 49, w_homeOwnership = 1 / 196, w_verificationStatus = 1 / 196 \<rparr>,
       thresholds = initialThresholds,
       metrics = initialMetrics\<lparr>lastTrained := 1720000000000\<rparr> \<rparr>"

text \<open>
  Scenario A with \<open>4 * 10 ^ 307\<close> inquiries, which the schema accepts and whose penalty
  overflows; what \<open>predict\<close> returns for it on \<open>zeroInquiryService\<close>; and the same profile
  with credit scores 749 and 750.
\<close>

definition hugeInquiryProfile :: LoanPredictionInput where
  "hugeInquiryProfile = (scenarioA ''personal_loan'')\<lparr>inquiriesLast6Months := 4 * 10 ^ 307\<rparr>"

definition hugeInquiryResult :: PredictionResultIeee where
  "hugeInquiryResult =
     \<lparr> prediction_ieee = Denied, probability_ieee = NaN, confidence_ieee = Medium,
       score_ieee = NaN,
       reasons_ieee = [''Multiple recent credit inquiries suggest financial stress''],
       featureImportance_ieee = modelWeights zeroInquiryService,
       riskFactors_ieee = [''Multiple recent credit inquiries''],
       positiveFactors_ieee =
         [''Excellent credit score'', ''Low debt-to-income ratio'', ''High annual income'',
          ''Long employment history'', ''Clean credit history'', ''No recent delinquencies'',
          ''Home ownership'', ''Verified income''] \<rparr>"



subsection \<open>Input domains\<close>

text \<open>
  \<open>specDomain\<close> follows the words of section 3 of the specification: an integer credit
  score from 300 to 850, a non-negative annual income, a non-negative employment length,
  a positive loan amount, a debt-to-income ratio in \<open>[0, 1]\<close>, non-negative integer
  counts of delinquencies and inquiries, and enumerated purpose, home-ownership and
  verification values. \<open>schemaDomain\<close> states what \<open>LoanPredictionInputSchema\<close> accepts;
  lemma \<open>schemaIssues_Nil\<close> below proves that it does.
\<close>

definition is_integer :: "real \<Rightarrow> bool" where
  "is_integer x = (of_int \<lfloor>x\<rfloor> = x)"

definition specDomain :: "LoanPredictionInput \<Rightarrow> bool" where
  "specDomain p =
     (is_integer (creditScore p) \<and> 300 \<le> creditScore p \<and> creditScore p \<le> 850 \<and>
      0 \<le> annualIncome p \<and>
      0 \<le> employmentLength p \<and>
      0 < loanAmount p \<and>
      loanPurpose p \<in> set loanPurposeValues \<and>
      0 \<le> debtToIncome p \<and> debtToIncome p \<le> 1 \<and>
      is_integer (delinquenciesLast2Years p) \<and> 0 \<le> delinquenciesLast2Years p \<and>
      is_integer (inquiriesLast6Months p) \<and> 0 \<le> inquiriesLast6Months p \<and>
      homeOwnership p \<in> set homeOwnershipValues \<and>
      verificationStatus p \<in> set verificationStatusValues)"

definition schemaDomain :: "LoanPredictionInput \<Rightarrow> bool" where
  "schemaDomain p =
     (300 \<le> creditScore p \<and> creditScore p \<le> 850 \<and>
      0 < annualIncome p \<and>
      0 \<le> employmentLength p \<and>
      0 < loanAmount p \<and>
      loanPurpose p \<in> set loanPurposeValues \<and>
      0 \<le> debtToIncome p \<and> debtToIncome p \<le> 1 \<and>
      0 \<le> delinquenciesLast2Years p \<and>
      0 \<le> inquiriesLast6Months p \<and>
      homeOwnership p \<in> set homeOwnershipValues \<and>
      verificationStatus p \<in> set verificationStatusValues)"

text \<open>\<open>weights_nonneg\<close>: no weight is negative. Monotonicity of the score rests on it.\<close>

definition weights_nonneg :: "FeatureImportance \<Rightarrow> bool" where
  "weights_nonneg w =
     (0 \<le> w_creditScore w \<and> 0 \<le> w_debtToIncome w \<and> 0 \<le> w_annualIncome w \<and>
      0 \<le> w_employmentLength w \<and> 0 \<le> w_hasDerogatory w \<and>
      0 \<le> w_delinquenciesLast2Years w \<and> 0 \<le> w_inquiriesLast6Months w \<and>
      0 \<le> w_loanAmount w \<and> 0 \<le> w_homeOwnership w \<and> 0 \<le> w_verificationStatus w)"

text \<open>
  \<open>weights_unit\<close>: every weight lies in \<open>[0, 1]\<close>. \<open>below K a\<close>: the double \<open>a\<close> is
  the negative infinity or a finite number of at most \<open>K\<close>.
\<close>

definition weights_unit :: "FeatureImportance \<Rightarrow> bool" where
  "weights_unit w =
     (0 \<le> w_creditScore w \<and> w_creditScore w \<le> 1 \<and>
      0 \<le> w_debtToIncome w \<and> w_debtToIncome w \<le> 1 \<and>
      0 \<le> w_annualIncome w \<and> w_annualIncome w \<le> 1 \<and>
      0 \<le> w_employmentLength w \<and> w_employmentLength w \<le> 1 \<and>
      0 \<le> w_hasDerogatory w \<and> w_hasDerogatory w \<le> 1 \<and>
      0 \<le> w_delinquenciesLast2Years w \<and> w_delinquenciesLast2Years w \<le> 1 \<and>
      0 \<le> w_inquiriesLast6Months w \<and> w_inquiriesLast6Months w \<le> 1 \<and>
      0 \<le> w_loanAmount w \<and> w_loanAmount w \<le> 1 \<and>
      0 \<le> w_homeOwnership w \<and> w_homeOwnership w \<le> 1 \<and>
      0 \<le> w_verificationStatus w \<and> w_verificationStatus w \<le> 1)"

definition below :: "real \<Rightarrow> Double \<Rightarrow> bool" where
  "below K a = (case a of Finite x \<Rightarrow> x \<le> K | NegInfinity \<Rightarrow> True | _ \<Rightarrow> False)"

section \<open>Properties\<close>

subsection \<open>Auxiliary facts\<close>

lemma sigmoid_ge_half: "(scoreToTprobability s \<ge> 0.5) = (s \<ge> 650)"
proof -
  have pos: "0 < 1 + exp (- ((s - 650) / 200))"
    by (simp add: add_pos_pos)
  have "(1 / (1 + exp (- ((s - 650) / 200))) \<ge> 1 / 2) = (1 + exp (- ((s - 650) / 200)) \<le> 2)"
    using pos by (simp add: field_simps)
  also have "\<dots> = (exp (- ((s - 650) / 200)) \<le> exp 0)" by simp
  also have "\<dots> = (- ((s - 650) / 200) \<le> 0)" by (simp only: exp_le_cancel_iff)
  also have "\<dots> = (s \<ge> 650)" by simp
  finally show ?thesis by (simp add: scoreToTprobability_def)
qed

lemma sigmoid_bounds: "0 < scoreToTprobability s \<and> scoreToTprobability s < 1"
proof -
  have "0 < exp (- ((s - 650) / 200))" by simp
  then show ?thesis by (simp add: scoreToTprobability_def Let_def add_pos_pos)
qed

lemma sigmoid_650: "scoreToTprobability 650 = 0.5"
  by (simp add: scoreToTprobability_def)

lemma validateInput_Inr: "(validateInput p = Inr v) = (schemaIssues p = [] \<and> v = p)"
  by (auto simp: validateInput_def split: list.splits)

lemma validateInput_Inl: "(validateInput p = Inl e) = (schemaIssues p \<noteq> [] \<and> e = schemaIssues p)"
  by (auto simp: validateInput_def split: list.splits)

lemma predict_unfold:
  "predict this p =
     (case validateInput p of
        Inl e \<Rightarrow> Inl e
      | Inr v \<Rightarrow>
          Inr \<lparr> prediction = (if clampedScore this v \<ge> 650 then Approved else Denied),
                probability = scoreToTprobability (clampedScore this v),
                confidence = calculateConfidence (clampedScore this v) v,
                score = math_round (clampedScore this v),
                reasons = generateReasons v (clampedScore this v)
                            (if clampedScore this v \<ge> 650 then Approved else Denied),
                featureImportance = modelWeights this,
                riskFactors = identifyRiskFactors v,
                positiveFactors = identifyPositiveFactors v \<rparr>)"
  unfolding predict_def Let_def sigmoid_ge_half ..

lemma predict_Inr:
  "(predict this p = Inr r) =
     (schemaIssues p = [] \<and>
      r = \<lparr> prediction = (if clampedScore this p \<ge> 650 then Approved else Denied),
            probability = scoreToTprobability (clampedScore this p),
            confidence = calculateConfidence (clampedScore this p) p,
            score = math_round (clampedScore this p),
            reasons = generateReasons p (clampedScore this p)
                        (if clampedScore this p \<ge> 650 then Approved else Denied),
            featureImportance = modelWeights this,
            riskFactors = identifyRiskFactors p,
            positiveFactors = identifyPositiveFactors p \<rparr>)"
  unfolding predict_unfold validateInput_def
  by (cases "schemaIssues p") auto

lemma predict_Inl: "(predict this p = Inl e) = (schemaIssues p \<noteq> [] \<and> e = schemaIssues p)"
  by (auto simp: predict_def Let_def validateInput_def split: list.splits)

lemmas component_defs =
  calculateCreditScoreComponent_def calculateDebtToIncomeComponent_def
  calculateIncomeComponent_def calculateEmploymentComponent_def
  calculateLoanAmountComponent_def calculateHomeOwnershipBonus_def
  calculateVerificationBonus_def

lemmas check_defs = check_min_def check_max_def check_positive_def check_enum_def
  loanPurposeValues_def homeOwnershipValues_def verificationStatusValues_def

lemma rawA: "rawScore newLoanPredictionService (scenarioA purpose) = 795"
  by (simp add: rawScore_def scenarioA_def newLoanPredictionService_def initialWeights_def
        component_defs Let_def)

lemma rawB: "rawScore newLoanPredictionService (scenarioB purpose) = -5780"
  by (simp add: rawScore_def scenarioB_def newLoanPredictionService_def initialWeights_def
        component_defs Let_def)

lemma raw650: "rawScore newLoanPredictionService boundaryProfile = 650"
  by (simp add: rawScore_def boundaryProfile_def newLoanPredictionService_def initialWeights_def
        component_defs Let_def)

lemma issuesA: "purpose \<in> set loanPurposeValues \<Longrightarrow> schemaIssues (scenarioA purpose) = []"
  by (simp add: schemaIssues_def scenarioA_def check_defs)



lemma math_round_bounds:
  assumes "0 \<le> x" and "x \<le> 1000"
  shows "0 \<le> math_round x \<and> math_round x \<le> 1000"
proof -
  have "0 \<le> \<lfloor>x + 1 / 2\<rfloor>" using assms by simp
  moreover have "\<lfloor>x + 1 / 2\<rfloor> \<le> 1000"
  proof -
    have "x + 1 / 2 < 1001" using assms by simp
    then have "\<lfloor>x + 1 / 2\<rfloor> < 1001" by (simp add: floor_less_iff)
    then show ?thesis by simp
  qed
  ultimately show ?thesis by (simp add: math_round_def)
qed

subsection \<open>The decision threshold\<close>

text \<open>
  Claim C1. For every valid profile (one that \<open>predict\<close> scores), the decision is
  \<open>approved\<close> exactly when the probability is at least 0.5; the probability is
  \<open>1 / (1 + exp (- (score - 650) / 200))\<close> of the clamped, unrounded score, so this is the
  same as that score being at least 650; and a score of exactly 650 gives probability
  exactly 0.5 and the decision \<open>approved\<close>.
\<close>

theorem predict_decision_threshold:
  assumes "predict this p = Inr r"
  shows "(prediction r = Approved \<longleftrightarrow> probability r \<ge> 0.5) \<and>
         probability r = 1 / (1 + exp (- ((clampedScore this p - 650) / 200))) \<and>
         (probability r \<ge> 0.5 \<longleftrightarrow> clampedScore this p \<ge> 650) \<and>
         (clampedScore this p = 650 \<longrightarrow> probability r = 0.5 \<and> prediction r = Approved)"
proof -
  from assms have pr: "probability r = scoreToTprobability (clampedScore this p)"
    and pd: "prediction r = (if clampedScore this p \<ge> 650 then Approved else Denied)"
    by (simp_all add: predict_Inr)
  have a: "prediction r = Approved \<longleftrightarrow> probability r \<ge> 0.5"
    unfolding pr pd sigmoid_ge_half by simp
  have b: "probability r = 1 / (1 + exp (- ((clampedScore this p - 650) / 200)))"
    unfolding pr scoreToTprobability_def Let_def ..
  have c: "probability r \<ge> 0.5 \<longleftrightarrow> clampedScore this p \<ge> 650"
    unfolding pr by (rule sigmoid_ge_half)
  have d: "clampedScore this p = 650 \<longrightarrow> probability r = 0.5 \<and> prediction r = Approved"
    unfolding pr pd using sigmoid_650 by simp
  from a b c d show ?thesis by blast
qed

lemma boundary_issues: "schemaIssues boundaryProfile = []"
  by (simp add: schemaIssues_def boundaryProfile_def check_defs)

lemma boundary_clamped: "clampedScore newLoanPredictionService boundaryProfile = 650"
  by (simp add: clampedScore_def raw650)

lemma boundary_confidence: "calculateConfidence 650 boundaryProfile = High"
  by (simp add: calculateConfidence_def boundaryProfile_def Let_def)

lemma boundary_reasons: "generateReasons boundaryProfile 650 Approved =
    [''Excellent credit score demonstrates strong payment history'',
     ''Low debt-to-income ratio shows strong financial capacity'',
     ''High annual income provides strong repayment ability'',
     ''Stable employment history reduces risk'',
     ''Clean credit history with no major derogatory marks'',
     ''Home ownership indicates financial stability'']"
  by (simp add: generateReasons_def boundaryProfile_def push_if_def)

lemma boundary_risks: "identifyRiskFactors boundaryProfile = [''Unverified income'']"
  by (simp add: identifyRiskFactors_def boundaryProfile_def push_if_def)

lemma boundary_positives: "identifyPositiveFactors boundaryProfile =
    [''Excellent credit score'', ''Low debt-to-income ratio'', ''High annual income'',
     ''Long employment history'', ''Clean credit history'', ''No recent delinquencies'',
     ''Home ownership'']"
  by (simp add: identifyPositiveFactors_def boundaryProfile_def push_if_def)

lemma new_modelWeights: "modelWeights newLoanPredictionService = initialWeights"
  by (simp add: newLoanPredictionService_def)

lemma boundary_predict: "predict newLoanPredictionService boundaryProfile = Inr boundaryResult"
  by (simp add: predict_Inr boundary_issues boundary_clamped sigmoid_650 boundary_confidence
        boundary_risks boundary_reasons boundary_positives math_round_def new_modelWeights
        boundaryResult_def)

text \<open>The theorem at \<open>boundaryProfile\<close>, whose score is exactly 650.\<close>

theorem predict_decision_threshold_witness:
  "predict newLoanPredictionService boundaryProfile = Inr boundaryResult \<and>
   clampedScore newLoanPredictionService boundaryProfile = 650 \<and>
   prediction boundaryResult = Approved \<and>
   probability boundaryResult = 0.5 \<and>
   1 / (1 + exp (- ((clampedScore newLoanPredictionService boundaryProfile - 650) / 200))) = 0.5"
  using predict_decision_threshold [OF boundary_predict] boundary_predict boundary_clamped
  by simp

lemma issuesB: "purpose \<in> set loanPurposeValues \<Longrightarrow> schemaIssues (scenarioB purpose) = []"
  by (simp add: schemaIssues_def scenarioB_def check_defs)

lemma clampedA: "clampedScore newLoanPredictionService (scenarioA purpose) = 795"
  by (simp add: clampedScore_def rawA)

lemma clampedB: "clampedScore newLoanPredictionService (scenarioB purpose) = 0"
  by (simp add: clampedScore_def rawB)

lemma confidenceA: "calculateConfidence 795 (scenarioA purpose) = Medium"
  by (simp add: calculateConfidence_def scenarioA_def Let_def)

lemma risksB: "identifyRiskFactors (scenarioB purpose) =
    [''Below-average credit score'', ''High debt-to-income ratio'', ''Derogatory credit marks'',
     ''Recent payment delinquencies'', ''Multiple recent credit inquiries'',
     ''Short employment history'', ''Lower income level'', ''Unverified income'']"
  by (simp add: identifyRiskFactors_def scenarioB_def push_if_def)

lemma reasonsB: "generateReasons (scenarioB purpose) 0 Denied =
    [''Credit score below acceptable threshold indicates high risk'',
     ''High debt-to-income ratio exceeds lending guidelines'',
     ''Low income may not support loan repayment'',
     ''Derogatory marks on credit report raise concerns'',
     ''Recent payment delinquencies indicate repayment risk'',
     ''Multiple recent credit inquiries suggest financial stress'',
     ''Short employment history increases income stability risk'',
     ''Loan amount is too high relative to annual income'']"
  by (simp add: generateReasons_def scenarioB_def push_if_def Let_def)

subsection \<open>Scenario A\<close>

text \<open>
  Claim C7. For the profile of scenario A (credit score 780, income 90000, six years of
  employment, loan amount 15000, debt-to-income 0.18, no derogatory marks, no
  delinquencies, one inquiry, home owned, income verified), with any loan purpose of the
  schema, \<open>predict\<close> on the constructed service returns the decision \<open>approved\<close>, a score
  above 700 (it is 795) and the confidence \<open>high\<close> or \<open>medium\<close>.
\<close>

theorem scenarioA_approved:
  assumes "purpose \<in> set loanPurposeValues"
  shows "\<exists>r. predict newLoanPredictionService (scenarioA purpose) = Inr r \<and>
             prediction r = Approved \<and> score r > 700 \<and> score r = 795 \<and>
             (confidence r = High \<or> confidence r = Medium)"
  using issuesA [OF assms]
  by (simp add: predict_Inr clampedA confidenceA math_round_def)

theorem scenarioA_approved_witness:
  "''personal_loan'' \<in> set loanPurposeValues \<and>
   (\<exists>r. predict newLoanPredictionService (scenarioA ''personal_loan'') = Inr r \<and>
        prediction r = Approved \<and> score r > 700 \<and> score r = 795 \<and>
        (confidence r = High \<or> confidence r = Medium))"
proof -
  have h: "''personal_loan'' \<in> set loanPurposeValues" by (simp add: loanPurposeValues_def)
  from scenarioA_approved [OF h] h show ?thesis by blast
qed

subsection \<open>Scenario B\<close>

text \<open>
  The risk-factor list of scenario B does not hold the string
  \<open>Derogatory marks on credit report raise concerns\<close>: \<open>identifyRiskFactors\<close> pushes
  \<open>Derogatory credit marks\<close>, and the longer sentence belongs to \<open>generateReasons\<close>.
\<close>

theorem scenarioB_risk_string_counterexample:
  "\<not> isl (predict newLoanPredictionService (scenarioB ''personal_loan'')) \<and>
   ''Derogatory marks on credit report raise concerns''
     \<notin> set (riskFactors (projr (predict newLoanPredictionService (scenarioB ''personal_loan''))))"
proof -
  have h: "''personal_loan'' \<in> set loanPurposeValues" by (simp add: loanPurposeValues_def)
  have "\<exists>r. predict newLoanPredictionService (scenarioB ''personal_loan'') = Inr r \<and>
          riskFactors r = identifyRiskFactors (scenarioB ''personal_loan'')"
    using issuesB [OF h] by (simp add: predict_Inr)
  then obtain r where r: "predict newLoanPredictionService (scenarioB ''personal_loan'') = Inr r"
    and rf: "riskFactors r = identifyRiskFactors (scenarioB ''personal_loan'')" by blast
  show ?thesis unfolding r by (simp add: rf risksB)
qed

text \<open>
  Claim C6, amended. For the profile of scenario B (credit score 540, income 22000, half
  a year of employment, loan amount 20000, debt-to-income 0.55, derogatory marks, three
  delinquencies, six inquiries, renting, income not verified), with any loan purpose of
  the schema, \<open>predict\<close> on the constructed service returns the decision \<open>denied\<close>; its
  risk-factor list has more than one entry and holds \<open>Derogatory credit marks\<close>; and its
  list of reasons holds \<open>Derogatory marks on credit report raise concerns\<close>.
\<close>

theorem scenarioB_denied:
  assumes "purpose \<in> set loanPurposeValues"
  shows "\<exists>r. predict newLoanPredictionService (scenarioB purpose) = Inr r \<and>
             prediction r = Denied \<and>
             length (riskFactors r) > 1 \<and>
             ''Derogatory credit marks'' \<in> set (riskFactors r) \<and>
             ''Derogatory marks on credit report raise concerns'' \<in> set (reasons r)"
  using issuesB [OF assms]
  by (simp add: predict_Inr clampedB risksB reasonsB)

theorem scenarioB_denied_witness:
  "''personal_loan'' \<in> set loanPurposeValues \<and>
   (\<exists>r. predict newLoanPredictionService (scenarioB ''personal_loan'') = Inr r \<and>
        prediction r = Denied \<and>
        length (riskFactors r) > 1 \<and>
        ''Derogatory credit marks'' \<in> set (riskFactors r) \<and>
        ''Derogatory marks on credit report raise concerns'' \<in> set (reasons r))"
proof -
  have h: "''personal_loan'' \<in> set loanPurposeValues" by (simp add: loanPurposeValues_def)
  from scenarioB_denied [OF h] h show ?thesis by blast
qed

subsection \<open>The weight table under \<open>retrainModel\<close>\<close>

lemma adjustWeight_nonneg: "0 \<le> adjustWeight w r"
  by (simp add: adjustWeight_def Let_def)

lemma adjustWeight_lower:
  assumes "unit_draw r"
  shows "w - 1 / 40 \<le> adjustWeight w r"
proof -
  from assms have "0 \<le> r" by (simp add: unit_draw_def)
  then have "w - 1 / 40 \<le> w + (r - 0.5) * 0.05" by simp
  also have "\<dots> \<le> max 0 (w + (r - 0.5) * 0.05)" by simp
  finally show ?thesis by (simp add: adjustWeight_def Let_def)
qed

lemma adjustWeights_nonneg: "weights_nonneg (adjustWeights w r)"
  by (simp add: weights_nonneg_def adjustWeights_def adjustWeight_nonneg)

lemma adjustWeights_total:
  assumes "validDraws rnd"
  shows "totalWeight w - 0.25 \<le> totalWeight (adjustWeights w (r_weights rnd))"
proof -
  let ?r = "r_weights rnd"
  have "w_creditScore w - 1 / 40 \<le> adjustWeight (w_creditScore w) (w_creditScore ?r)"
    and "w_debtToIncome w - 1 / 40 \<le> adjustWeight (w_debtToIncome w) (w_debtToIncome ?r)"
    and "w_annualIncome w - 1 / 40 \<le> adjustWeight (w_annualIncome w) (w_annualIncome ?r)"
    and "w_employmentLength w - 1 / 40
           \<le> adjustWeight (w_employmentLength w) (w_employmentLength ?r)"
    and "w_hasDerogatory w - 1 / 40 \<le> adjustWeight (w_hasDerogatory w) (w_hasDerogatory ?r)"
    and "w_delinquenciesLast2Years w - 1 / 40
           \<le> adjustWeight (w_delinquenciesLast2Years w) (w_delinquenciesLast2Years ?r)"
    and "w_inquiriesLast6Months w - 1 / 40
           \<le> adjustWeight (w_inquiriesLast6Months w) (w_inquiriesLast6Months ?r)"
    and "w_loanAmount w - 1 / 40 \<le> adjustWeight (w_loanAmount w) (w_loanAmount ?r)"
    and "w_homeOwnership w - 1 / 40 \<le> adjustWeight (w_homeOwnership w) (w_homeOwnership ?r)"
    and "w_verificationStatus w - 1 / 40
           \<le> adjustWeight (w_verificationStatus w) (w_verificationStatus ?r)"
    using assms unfolding validDraws_def by (auto intro!: adjustWeight_lower)
  then show ?thesis
    by (simp add: totalWeight_def adjustWeights_def)
qed

lemma normalizeWeights_Some:
  assumes "0 < totalWeight w" and "weights_nonneg w"
  shows "\<exists>w'. normalizeWeights w = Some w' \<and> weights_nonneg w' \<and> totalWeight w' = 1"
proof -
  let ?t = "totalWeight w"
  from assms(1) have nz: "?t \<noteq> 0" by simp
  have sum: "(0 + w_creditScore w + w_debtToIncome w + w_annualIncome w + w_employmentLength w +
     w_hasDerogatory w + w_delinquenciesLast2Years w + w_inquiriesLast6Months w +
     w_loanAmount w + w_homeOwnership w + w_verificationStatus w) / ?t = 1"
    using nz by (simp add: totalWeight_def)
  show ?thesis
    using assms nz sum
    by (simp add: normalizeWeights_def Let_def weights_nonneg_def add_divide_distrib
          totalWeight_def [of "\<lparr>w_creditScore = _, w_debtToIncome = _, w_annualIncome = _,
             w_employmentLength = _, w_hasDerogatory = _, w_delinquenciesLast2Years = _,
             w_inquiriesLast6Months = _, w_loanAmount = _, w_homeOwnership = _,
             w_verificationStatus = _\<rparr>"])
qed

lemma initial_weights_inv:
  "weights_nonneg initialWeights \<and> totalWeight initialWeights = 1.01"
  by (simp add: weights_nonneg_def totalWeight_def initialWeights_def)

lemma retrainModel_Some:
  assumes "weights_nonneg (modelWeights this)" and "1 \<le> totalWeight (modelWeights this)"
    and "validDraws rnd"
  shows "\<exists>m this'. retrainModel this now rnd trainingData = Some (m, this') \<and>
           weights_nonneg (modelWeights this') \<and> totalWeight (modelWeights this') = 1"
proof -
  let ?a = "adjustWeights (modelWeights this) (r_weights rnd)"
  have "totalWeight (modelWeights this) - 0.25 \<le> totalWeight ?a"
    using assms(3) by (rule adjustWeights_total)
  with assms(2) have "0 < totalWeight ?a" by simp
  then obtain w' where "normalizeWeights ?a = Some w'" and "weights_nonneg w'"
    and "totalWeight w' = 1"
    using normalizeWeights_Some [OF _ adjustWeights_nonneg] by blast
  then show ?thesis by (simp add: retrainModel_def Let_def)
qed

lemma retrainModel_weights:
  assumes "retrainModel this now rnd trainingData = Some (m, this')"
  shows "normalizeWeights (adjustWeights (modelWeights this) (r_weights rnd))
           = Some (modelWeights this')"
  using assms by (auto simp: retrainModel_def Let_def split: option.splits)

lemma normalizeWeights_result:
  assumes "normalizeWeights w = Some w'" and "weights_nonneg w"
  shows "weights_nonneg w' \<and> totalWeight w' = 1"
proof -
  from assms(1) have "totalWeight w \<noteq> 0"
    by (auto simp: normalizeWeights_def Let_def split: if_splits)
  moreover from assms(2) have "0 \<le> totalWeight w"
    by (simp add: weights_nonneg_def totalWeight_def)
  ultimately have "0 < totalWeight w" by simp
  from normalizeWeights_Some [OF this assms(2)] assms(1) show ?thesis by auto
qed

lemma reachable_inv:
  assumes "reachable this"
  shows "weights_nonneg (modelWeights this) \<and> 1 \<le> totalWeight (modelWeights this)"
  using assms
proof (induction rule: reachable.induct)
  case reachable_new
  show ?case using initial_weights_inv by (simp add: new_modelWeights)
next
  case (reachable_retrain this rnd now trainingData m this')
  from retrainModel_weights [OF reachable_retrain.hyps(3)]
  have "weights_nonneg (modelWeights this') \<and> totalWeight (modelWeights this') = 1"
    by (rule normalizeWeights_result) (rule adjustWeights_nonneg)
  then show ?case by simp
qed

text \<open>
  From every reachable state, whatever \<open>Math.random\<close> draws, \<open>retrainModel\<close> returns (the
  total it divides by is positive) and leaves weights that sum to 1.
\<close>

lemma retrainModel_normalises:
  assumes "reachable this" and "validDraws rnd"
  shows "\<exists>m this'. retrainModel this now rnd trainingData = Some (m, this') \<and>
           totalWeight (modelWeights this') = 1"
  using retrainModel_Some [of this rnd now trainingData] reachable_inv [OF assms(1)] assms(2)
  by blast

text \<open>
  Claim C5. The weights sum to 1.0 at all times: the initial weights sum to 1.0, and so
  do the weights after any \<open>retrainModel\<close> call. The constructed service breaks this: its
  ten weights sum to 1.01, and they stay so until the first \<open>retrainModel\<close> call
  normalises them (lemma \<open>retrainModel_normalises\<close>).
\<close>

theorem initial_weights_total:
  "totalWeight (modelWeights newLoanPredictionService) = 1.01 \<and>
   totalWeight (modelWeights newLoanPredictionService) \<noteq> 1"
  using initial_weights_inv by (simp add: new_modelWeights)

subsection \<open>A zero weight is reachable\<close>

lemma retrain_first:
  "retrainModel newLoanPredictionService 1710000000000 zeroInquiryDraws None =
     Some (metrics retrainedOnce, retrainedOnce)"
  by (simp add: retrainModel_def Let_def normalizeWeights_def adjustWeights_def adjustWeight_def
        totalWeight_def newLoanPredictionService_def initialWeights_def initialMetrics_def
        zeroInquiryDraws_def retrainedOnce_def newTrainingSize_def)

lemma retrain_second:
  "retrainModel retrainedOnce 1720000000000 zeroInquiryDraws None =
     Some (metrics zeroInquiryService, zeroInquiryService)"
  by (simp add: retrainModel_def Let_def normalizeWeights_def adjustWeights_def adjustWeight_def
        totalWeight_def initialMetrics_def
        zeroInquiryDraws_def retrainedOnce_def zeroInquiryService_def newTrainingSize_def)

lemma zeroInquiryDraws_valid: "validDraws zeroInquiryDraws"
  by (simp add: validDraws_def unit_draw_def zeroInquiryDraws_def)

lemma zeroInquiryService_reachable: "reachable zeroInquiryService"
  using reachable_retrain [OF reachable_retrain [OF reachable_new zeroInquiryDraws_valid retrain_first]
      zeroInquiryDraws_valid retrain_second] .

subsection \<open>Ranges of score and probability\<close>

lemma double_add_NaN_right: "double_add a NaN = NaN"
  by (cases a) simp_all

lemma huge_issues: "schemaIssues hugeInquiryProfile = []"
  by (simp add: schemaIssues_def hugeInquiryProfile_def scenarioA_def check_min_def check_max_def
      check_positive_def check_enum_def
      loanPurposeValues_def homeOwnershipValues_def verificationStatusValues_def)

lemma huge_penalty:
  "double_mul
     (double_mul (Finite (inquiriesLast6Months (hugeInquiryProfile\<lparr>creditScore := c\<rparr>)))
        (Finite (- 5)))
     (Finite (w_inquiriesLast6Months (modelWeights zeroInquiryService))) = NaN"
proof -
  have "double_mul (Finite (4 * 10 ^ 307)) (Finite (- 5)) = NegInfinity"
    by (simp add: double_result_def overflow_threshold_def)
  moreover have "double_mul NegInfinity (Finite 0) = NaN"
    by (simp add: signed_infinity_def)
  ultimately show ?thesis
    by (simp add: hugeInquiryProfile_def zeroInquiryService_def)
qed

lemma huge_raw: "rawScore_ieee zeroInquiryService (hugeInquiryProfile\<lparr>creditScore := c\<rparr>) = NaN"
  unfolding rawScore_ieee_def Let_def huge_penalty
  by (simp only: double_add_NaN_right double_add.simps(1) double_mul.simps(1))

lemma huge_clamped:
  "clampedScore_ieee zeroInquiryService (hugeInquiryProfile\<lparr>creditScore := c\<rparr>) = NaN"
  by (simp add: clampedScore_ieee_def huge_raw math_min_def math_max_def)

lemma probability_NaN: "scoreToTprobability_ieee NaN = NaN"
  by (simp add: scoreToTprobability_ieee_def)

lemma generateReasons_score_unused: "generateReasons input sc pred = generateReasons input sc' pred"
  by (simp add: generateReasons_def)

lemma predict_ieee_Inr:
  assumes "schemaIssues p = []"
  shows "predict_ieee this p =
     Inr \<lparr> prediction_ieee =
             (if double_le (Finite 0.5) (scoreToTprobability_ieee (clampedScore_ieee this p))
              then Approved else Denied),
           probability_ieee = scoreToTprobability_ieee (clampedScore_ieee this p),
           confidence_ieee = calculateConfidence_ieee (clampedScore_ieee this p) p,
           score_ieee = math_round_ieee (clampedScore_ieee this p),
           reasons_ieee = generateReasons p 0
             (if double_le (Finite 0.5) (scoreToTprobability_ieee (clampedScore_ieee this p))
              then Approved else Denied),
           featureImportance_ieee = modelWeights this,
           riskFactors_ieee = identifyRiskFactors p,
           positiveFactors_ieee = identifyPositiveFactors p \<rparr>"
  using assms unfolding predict_ieee_def validateInput_def Let_def by simp

lemma huge_self: "hugeInquiryProfile\<lparr>creditScore := 780\<rparr> = hugeInquiryProfile"
  by (simp add: hugeInquiryProfile_def scenarioA_def)

lemma huge_clamped_780: "clampedScore_ieee zeroInquiryService hugeInquiryProfile = NaN"
  using huge_clamped [of 780] by (simp add: huge_self)

lemma huge_predict: "predict_ieee zeroInquiryService hugeInquiryProfile = Inr hugeInquiryResult"
proof -
  have conf: "calculateConfidence_ieee NaN hugeInquiryProfile = Medium"
    by (simp add: calculateConfidence_ieee_def Let_def hugeInquiryProfile_def scenarioA_def)
  have reas: "generateReasons hugeInquiryProfile 0 Denied =
      [''Multiple recent credit inquiries suggest financial stress'']"
    by (simp add: generateReasons_def push_if_def Let_def hugeInquiryProfile_def scenarioA_def)
  have risk: "identifyRiskFactors hugeInquiryProfile = [''Multiple recent credit inquiries'']"
    by (simp add: identifyRiskFactors_def push_if_def hugeInquiryProfile_def scenarioA_def)
  have pos: "identifyPositiveFactors hugeInquiryProfile =
      [''Excellent credit score'', ''Low debt-to-income ratio'', ''High annual income'',
       ''Long employment history'', ''Clean credit history'', ''No recent delinquencies'',
       ''Home ownership'', ''Verified income'']"
    by (simp add: identifyPositiveFactors_def push_if_def hugeInquiryProfile_def scenarioA_def)
  show ?thesis
    unfolding predict_ieee_Inr [OF huge_issues] huge_clamped_780 probability_NaN
    by (simp add: conf reas risk pos hugeInquiryResult_def)
qed

text \<open>
  Claim C3. For every valid profile the score that \<open>predict\<close> returns lies in
  \<open>[0, 1000]\<close> and the probability lies in \<open>[0, 1]\<close>. The code breaks this on
  \<open>zeroInquiryService\<close>, which two \<open>retrainModel\<close> calls reach, for the valid profile
  \<open>hugeInquiryProfile\<close>: the penalty \<open>4 * 10 ^ 307 * -5\<close> overflows to the negative
  infinity, its product with the weight 0 is NaN, and
  \<open>Math.max(0, Math.min(1000, NaN))\<close> is NaN. The score and the probability of the
  result are NaN, which lies in no interval.
\<close>

theorem predict_score_nan:
  "reachable zeroInquiryService \<and>
   schemaIssues hugeInquiryProfile = [] \<and>
   predict_ieee zeroInquiryService hugeInquiryProfile = Inr hugeInquiryResult \<and>
   score_ieee hugeInquiryResult = NaN \<and>
   probability_ieee hugeInquiryResult = NaN \<and>
   \<not> double_le (Finite 0) (score_ieee hugeInquiryResult) \<and>
   \<not> double_le (score_ieee hugeInquiryResult) (Finite 1000) \<and>
   \<not> double_le (Finite 0) (probability_ieee hugeInquiryResult) \<and>
   \<not> double_le (probability_ieee hugeInquiryResult) (Finite 1)"
  using zeroInquiryService_reachable huge_issues huge_predict
  by (simp add: hugeInquiryResult_def)

text \<open>
  Where the weights of the two penalties are positive, as on the constructed service,
  no NaN arises and the range holds: an overflowing penalty makes the raw score the
  negative infinity, which the clamp turns into 0.
\<close>

lemma threshold_large: "41000 < overflow_threshold"
  by (simp add: overflow_threshold_def)

lemma below_result: "x \<le> K \<Longrightarrow> K < overflow_threshold \<Longrightarrow> below K (double_result x)"
  by (simp add: below_def double_result_def)

lemma below_add:
  assumes "below K a" and "below L b" and "K + L < overflow_threshold"
  shows "below (K + L) (double_add a b)"
proof (cases a)
  case (Finite x)
  show ?thesis
  proof (cases b)
    case (Finite y)
    with \<open>a = Finite x\<close> assms have "x + y \<le> K + L" by (simp add: below_def)
    then show ?thesis using assms(3) \<open>a = Finite x\<close> Finite by (simp add: below_result)
  qed (use assms Finite in \<open>simp_all add: below_def\<close>)
next
  case NegInfinity
  then show ?thesis using assms by (cases b) (simp_all add: below_def)
qed (use assms in \<open>simp_all add: below_def\<close>)

lemma below_component:
  assumes "c \<le> C" and "0 \<le> C" and "0 \<le> w" and "w \<le> 1" and "C < overflow_threshold"
  shows "below C (double_mul (Finite c) (Finite w))"
proof -
  have "c * w \<le> C"
  proof (cases "0 \<le> c")
    case True
    then have "c * w \<le> c * 1" using assms(4) by (intro mult_left_mono) auto
    with assms(1) show ?thesis by simp
  next
    case False
    then have "c * w \<le> 0" using assms(3) by (simp add: mult_le_0_iff)
    with assms(2) show ?thesis by simp
  qed
  then show ?thesis using assms(5) by (simp add: below_result)
qed

lemma below_penalty:
  assumes "0 \<le> d" and "0 < k" and "0 < w" and "w \<le> 1"
  shows "below 0 (double_mul (double_mul (Finite d) (Finite (- k))) (Finite w))"
proof -
  have t: "0 < overflow_threshold" using threshold_large by simp
  have neg: "d * (- k) \<le> 0" using assms(1,2) by (simp add: mult_le_0_iff)
  show ?thesis
  proof (cases "d * (- k) \<le> - overflow_threshold")
    case True
    then show ?thesis using assms(3) t
      by (simp add: double_result_def signed_infinity_def below_def)
  next
    case False
    have "d * (- k) * w \<le> 0" using neg assms(3) by (simp add: mult_le_0_iff)
    then have "below 0 (double_result (d * (- k) * w))" using t by (rule below_result)
    moreover have "double_mul (Finite d) (Finite (- k)) = Finite (d * (- k))"
      using False neg t by (simp add: double_result_def)
    ultimately show ?thesis by simp
  qed
qed

lemma component_bounds:
  "calculateCreditScoreComponent a \<le> 1" "calculateDebtToIncomeComponent a \<le> 1"
  "calculateIncomeComponent a \<le> 1" "calculateEmploymentComponent a \<le> 1"
  "calculateLoanAmountComponent a b \<le> 1" "calculateHomeOwnershipBonus h \<le> 20"
  "calculateVerificationBonus h \<le> 15"
  by (simp_all add: calculateCreditScoreComponent_def calculateDebtToIncomeComponent_def
        calculateIncomeComponent_def calculateEmploymentComponent_def
        calculateLoanAmountComponent_def calculateHomeOwnershipBonus_def
        calculateVerificationBonus_def Let_def)

lemma rawScore_ieee_below:
  assumes w: "weights_unit (modelWeights this)"
    and d: "0 < w_delinquenciesLast2Years (modelWeights this)"
    and i: "0 < w_inquiriesLast6Months (modelWeights this)"
    and p: "schemaIssues p = []"
  shows "below 40000 (rawScore_ieee this p)"
proof -
  note t = threshold_large
  from p have dom: "0 \<le> delinquenciesLast2Years p" "0 \<le> inquiriesLast6Months p"
    by (simp_all add: schemaIssues_def check_min_def split: if_splits)
  define t1 where "t1 = double_mul (Finite (calculateCreditScoreComponent (creditScore p)))
    (Finite (w_creditScore (modelWeights this)))"
  define t2 where "t2 = double_mul (Finite (calculateDebtToIncomeComponent (debtToIncome p)))
    (Finite (w_debtToIncome (modelWeights this)))"
  define t3 where "t3 = double_mul (Finite (calculateIncomeComponent (annualIncome p)))
    (Finite (w_annualIncome (modelWeights this)))"
  define t4 where "t4 = double_mul (Finite (calculateEmploymentComponent (employmentLength p)))
    (Finite (w_employmentLength (modelWeights this)))"
  define t5 where "t5 = double_mul (Finite (if hasDerogatory p then - 50 else 0))
    (Finite (w_hasDerogatory (modelWeights this)))"
  define t6 where "t6 = double_mul
    (double_mul (Finite (delinquenciesLast2Years p)) (Finite (- 10)))
    (Finite (w_delinquenciesLast2Years (modelWeights this)))"
  define t7 where "t7 = double_mul
    (double_mul (Finite (inquiriesLast6Months p)) (Finite (- 5)))
    (Finite (w_inquiriesLast6Months (modelWeights this)))"
  define t8 where "t8 = double_mul
    (Finite (calculateLoanAmountComponent (loanAmount p) (annualIncome p)))
    (Finite (w_loanAmount (modelWeights this)))"
  define t9 where "t9 = double_mul (Finite (calculateHomeOwnershipBonus (homeOwnership p)))
    (Finite (w_homeOwnership (modelWeights this)))"
  define t10 where "t10 = double_mul (Finite (calculateVerificationBonus (verificationStatus p)))
    (Finite (w_verificationStatus (modelWeights this)))"
  have a1: "below 1 t1" unfolding t1_def
    using w t by (intro below_component component_bounds) (simp_all add: weights_unit_def)
  have a2: "below 1 t2" unfolding t2_def
    using w t by (intro below_component component_bounds) (simp_all add: weights_unit_def)
  have a3: "below 1 t3" unfolding t3_def
    using w t by (intro below_component component_bounds) (simp_all add: weights_unit_def)
  have a4: "below 1 t4" unfolding t4_def
    using w t by (intro below_component component_bounds) (simp_all add: weights_unit_def)
  have a5: "below 0 t5" unfolding t5_def
    using w t by (intro below_component) (simp_all add: weights_unit_def)
  have a6: "below 0 t6" unfolding t6_def
    using dom(1) d w by (intro below_penalty) (simp_all add: weights_unit_def)
  have a7: "below 0 t7" unfolding t7_def
    using dom(2) i w by (intro below_penalty) (simp_all add: weights_unit_def)
  have a8: "below 1 t8" unfolding t8_def
    using w t by (intro below_component component_bounds) (simp_all add: weights_unit_def)
  have a9: "below 20 t9" unfolding t9_def
    using w t by (intro below_component component_bounds) (simp_all add: weights_unit_def)
  have a10: "below 15 t10" unfolding t10_def
    using w t by (intro below_component component_bounds) (simp_all add: weights_unit_def)
  have s2: "below 2 (double_add t1 t2)"
    using below_add [OF a1 a2] t by simp
  have s3: "below 3 (double_add (double_add t1 t2) t3)"
    using below_add [OF s2 a3] t by simp
  have s4: "below 4 (double_add (double_add (double_add t1 t2) t3) t4)"
    using below_add [OF s3 a4] t by simp
  have s5: "below 4 (double_add (double_add (double_add (double_add t1 t2) t3) t4) t5)"
    using below_add [OF s4 a5] t by simp
  have s6: "below 4
      (double_add (double_add (double_add (double_add (double_add t1 t2) t3) t4) t5) t6)"
    using below_add [OF s5 a6] t by simp
  have s7: "below 4 (double_add
      (double_add (double_add (double_add (double_add (double_add t1 t2) t3) t4) t5) t6) t7)"
    using below_add [OF s6 a7] t by simp
  have s8: "below 5 (double_add (double_add
      (double_add (double_add (double_add (double_add (double_add t1 t2) t3) t4) t5) t6) t7)
      t8)"
    using below_add [OF s7 a8] t by simp
  have s9: "below 25 (double_add (double_add (double_add
      (double_add (double_add (double_add (double_add (double_add t1 t2) t3) t4) t5) t6) t7)
      t8) t9)"
    using below_add [OF s8 a9] t by simp
  have s10: "below 40 (double_add (double_add (double_add (double_add
      (double_add (double_add (double_add (double_add (double_add t1 t2) t3) t4) t5) t6) t7)
      t8) t9) t10)" (is "below 40 ?s")
    using below_add [OF s9 a10] t by simp
  have "below 40000 (double_mul ?s (Finite 1000))"
  proof (cases ?s)
    case (Finite x)
    with s10 have "x * 1000 \<le> 40000" by (simp add: below_def)
    then have "below 40000 (double_result (x * 1000))" using t by (intro below_result) simp_all
    with Finite show ?thesis by simp
  next
    case NegInfinity
    then show ?thesis by (simp add: signed_infinity_def below_def)
  qed (use s10 in \<open>simp_all add: below_def\<close>)
  then show ?thesis
    unfolding rawScore_ieee_def Let_def t1_def t2_def t3_def t4_def t5_def t6_def t7_def t8_def
      t9_def t10_def .
qed

lemma double_result_Finite:
  "- overflow_threshold < x \<Longrightarrow> x < overflow_threshold \<Longrightarrow> double_result x = Finite x"
  by (simp add: double_result_def)

lemma exp_small:
  assumes "(z::real) \<le> 4"
  shows "exp z \<le> 81"
proof -
  have "exp (4::real) = exp 1 ^ 4"
    using exp_of_nat_mult [of 4 "1::real"] by simp
  also have "\<dots> \<le> 3 ^ 4" by (intro power_mono exp_le) simp
  finally have "exp (4::real) \<le> 81" by simp
  moreover have "exp z \<le> exp 4" using assms by simp
  ultimately show ?thesis by linarith
qed

lemma scoreToTprobability_ieee_Finite:
  assumes "0 \<le> y" and "y \<le> 1000"
  shows "scoreToTprobability_ieee (Finite y) = Finite (scoreToTprobability y)"
proof -
  note t = threshold_large
  let ?z = "- ((y - 650) / 200)"
  have s1: "double_add (Finite y) (Finite (- 650)) = Finite (y - 650)"
    using assms t by (simp add: double_result_Finite)
  have s2: "double_div (Finite (y - 650)) (Finite 200) = Finite ((y - 650) / 200)"
    using assms t by (simp add: double_result_Finite)
  have "- 4 \<le> (y - 650) / 200" using assms by (simp add: le_divide_eq)
  then have z: "?z \<le> 4" by linarith
  have e81: "exp ?z \<le> 81" using z by (rule exp_small)
  have e0: "0 < exp ?z" by simp
  have e: "math_exp (Finite ?z) = Finite (exp ?z)"
  proof -
    have "- overflow_threshold < exp ?z" "exp ?z < overflow_threshold"
      using t e81 e0 by linarith+
    then show ?thesis by (simp add: double_result_Finite del: exp_minus)
  qed
  have s3: "double_add (Finite 1) (Finite (exp ?z)) = Finite (1 + exp ?z)"
  proof -
    have "- overflow_threshold < 1 + exp ?z" "1 + exp ?z < overflow_threshold"
      using t e81 e0 by linarith+
    then show ?thesis by (simp add: double_result_Finite del: exp_minus)
  qed
  have pos: "0 < 1 + exp ?z" by (simp add: add_pos_pos)
  have s4: "double_div (Finite 1) (Finite (1 + exp ?z)) = Finite (1 / (1 + exp ?z))"
  proof -
    have "0 < 1 / (1 + exp ?z)" using pos by simp
    moreover have "1 / (1 + exp ?z) < 1" using pos by simp
    ultimately have "- overflow_threshold < 1 / (1 + exp ?z)"
      "1 / (1 + exp ?z) < overflow_threshold"
      using t by linarith+
    moreover have "1 + exp ?z \<noteq> 0" using pos by simp
    ultimately show ?thesis by (simp add: double_result_Finite del: exp_minus)
  qed
  show ?thesis
    by (simp only: scoreToTprobability_ieee_def scoreToTprobability_def Let_def s1 s2
          double_neg.simps e s3 s4)
qed

lemma clampedScore_ieee_Finite:
  assumes "below K (rawScore_ieee this p)"
  shows "\<exists>y. clampedScore_ieee this p = Finite y \<and> 0 \<le> y \<and> y \<le> 1000"
proof (cases "rawScore_ieee this p")
  case (Finite x)
  then show ?thesis
    by (auto simp: clampedScore_ieee_def math_min_def math_max_def)
next
  case NegInfinity
  then show ?thesis
    by (simp add: clampedScore_ieee_def math_min_def math_max_def)
qed (use assms in \<open>simp_all add: below_def\<close>)

lemma predict_ieee_in_range:
  assumes "weights_unit (modelWeights this)"
    and "0 < w_delinquenciesLast2Years (modelWeights this)"
    and "0 < w_inquiriesLast6Months (modelWeights this)"
    and "predict_ieee this p = Inr r"
  shows "\<exists>s q. score_ieee r = Finite s \<and> 0 \<le> s \<and> s \<le> 1000 \<and>
               probability_ieee r = Finite q \<and> 0 \<le> q \<and> q \<le> 1"
proof -
  from assms(4) have iss: "schemaIssues p = []"
    by (auto simp: predict_ieee_def validateInput_def split: list.splits)
  from clampedScore_ieee_Finite [OF rawScore_ieee_below [OF assms(1-3) iss]]
  obtain y where y: "clampedScore_ieee this p = Finite y" "0 \<le> y" "y \<le> 1000" by blast
  from assms(4) have sc: "score_ieee r = Finite (math_round y)"
    and pr: "probability_ieee r = Finite (scoreToTprobability y)"
    unfolding predict_ieee_Inr [OF iss] y(1) scoreToTprobability_ieee_Finite [OF y(2,3)]
    by auto
  have "0 \<le> math_round y \<and> math_round y \<le> 1000"
    using y(2,3) by (rule math_round_bounds)
  moreover have "0 \<le> scoreToTprobability y \<and> scoreToTprobability y \<le> 1"
    using sigmoid_bounds [of y] by simp
  ultimately show ?thesis using sc pr by simp
qed

lemma new_service_in_range:
  assumes "predict_ieee newLoanPredictionService p = Inr r"
  shows "\<exists>s q. score_ieee r = Finite s \<and> 0 \<le> s \<and> s \<le> 1000 \<and>
               probability_ieee r = Finite q \<and> 0 \<le> q \<and> q \<le> 1"
  using assms
  by (intro predict_ieee_in_range [of newLoanPredictionService p r])
     (simp_all add: weights_unit_def newLoanPredictionService_def initialWeights_def)

subsection \<open>Monotonicity of the score\<close>



subsection \<open>Validation\<close>

lemma schemaIssues_Nil: "(schemaIssues p = []) = schemaDomain p"
  by (auto simp: schemaIssues_def schemaDomain_def check_min_def check_max_def
        check_positive_def check_enum_def)

text \<open>
  The schema and section 3 of the specification disagree in both directions: a profile
  with annual income 0 is inside the domains of section 3 and is rejected, the issue
  citing \<open>annualIncome\<close>; a profile with credit score 700.5 is outside them and is scored.
\<close>

theorem spec_domain_counterexample:
  "specDomain zeroIncomeProfile \<and>
   predict newLoanPredictionService zeroIncomeProfile = Inl [(''annualIncome'', TooSmall)] \<and>
   \<not> specDomain fractionalProfile \<and>
   \<not> isl (predict newLoanPredictionService fractionalProfile)"
proof -
  have a: "specDomain zeroIncomeProfile"
    by (simp add: specDomain_def zeroIncomeProfile_def scenarioA_def is_integer_def check_defs)
  have b: "predict newLoanPredictionService zeroIncomeProfile = Inl [(''annualIncome'', TooSmall)]"
    by (simp add: predict_Inl schemaIssues_def zeroIncomeProfile_def scenarioA_def check_defs)
  have c: "\<not> specDomain fractionalProfile"
    by (simp add: specDomain_def fractionalProfile_def scenarioA_def is_integer_def)
  have "schemaIssues fractionalProfile = []"
    by (simp add: schemaIssues_def fractionalProfile_def scenarioA_def check_defs)
  then have "\<exists>r. predict newLoanPredictionService fractionalProfile = Inr r"
    by (simp add: predict_Inr)
  then have d: "\<not> isl (predict newLoanPredictionService fractionalProfile)" by auto
  from a b c d show ?thesis by simp
qed

text \<open>
  Claim C2, amended. \<open>predict\<close> fails with a validation error exactly when some field is
  outside the domain of the schema: a credit score from 300 to 850 (any number, not only
  an integer), a positive annual income, a non-negative employment length, a positive
  loan amount, a debt-to-income ratio in \<open>[0, 1]\<close>, non-negative numbers of delinquencies
  and inquiries, and enumerated purpose, home-ownership and verification values.
  Otherwise it returns a result. A credit score of 851 raises a validation error that
  cites \<open>creditScore\<close>, and an annual income of 0 one that cites \<open>annualIncome\<close>.
\<close>

theorem predict_fails_iff_outside_schema:
  "((\<exists>e. predict this p = Inl e) \<longleftrightarrow> \<not> schemaDomain p) \<and>
   ((\<exists>r. predict this p = Inr r) \<longleftrightarrow> schemaDomain p) \<and>
   (\<exists>e. predict this (p\<lparr>creditScore := 851\<rparr>) = Inl e \<and> (''creditScore'', TooBig) \<in> set e) \<and>
   (\<exists>e. predict this (p\<lparr>annualIncome := 0\<rparr>) = Inl e \<and> (''annualIncome'', TooSmall) \<in> set e)"
proof -
  have a: "(\<exists>e. predict this p = Inl e) \<longleftrightarrow> \<not> schemaDomain p"
    by (simp add: predict_Inl schemaIssues_Nil)
  have b: "(\<exists>r. predict this p = Inr r) \<longleftrightarrow> schemaDomain p"
    by (simp add: predict_Inr schemaIssues_Nil)
  have "(''creditScore'', TooBig) \<in> set (schemaIssues (p\<lparr>creditScore := 851\<rparr>))"
    by (simp add: schemaIssues_def check_min_def check_max_def)
  then have c: "\<exists>e. predict this (p\<lparr>creditScore := 851\<rparr>) = Inl e \<and> (''creditScore'', TooBig) \<in> set e"
    by (auto simp: predict_Inl)
  have "(''annualIncome'', TooSmall) \<in> set (schemaIssues (p\<lparr>annualIncome := 0\<rparr>))"
    by (simp add: schemaIssues_def check_positive_def)
  then have d: "\<exists>e. predict this (p\<lparr>annualIncome := 0\<rparr>) = Inl e \<and> (''annualIncome'', TooSmall) \<in> set e"
    by (auto simp: predict_Inl)
  from a b c d show ?thesis by blast
qed

theorem predict_fails_iff_outside_schema_witness:
  "schemaDomain boundaryProfile \<and>
   (\<exists>r. predict newLoanPredictionService boundaryProfile = Inr r) \<and>
   \<not> (\<exists>e. predict newLoanPredictionService boundaryProfile = Inl e) \<and>
   (\<exists>e. predict newLoanPredictionService (boundaryProfile\<lparr>creditScore := 851\<rparr>) = Inl e \<and>
        (''creditScore'', TooBig) \<in> set e)"
proof -
  have "schemaDomain boundaryProfile"
    using boundary_issues by (simp add: schemaIssues_Nil)
  with predict_fails_iff_outside_schema [of newLoanPredictionService boundaryProfile]
  show ?thesis by blast
qed

subsection \<open>Determinism\<close>

text \<open>
  Claim C8. \<open>predict\<close> is a function of the fields of the service and of the profile, and
  it assigns no field; \<open>retrainModel\<close> is the only method that does. So two calls with the
  same profile and no \<open>retrainModel\<close> between them read the same fields. Of these only the
  weight table matters: services with equal weights return equal outcomes, in every
  field of the result.
\<close>

theorem predict_depends_on_weights_only:
  assumes "modelWeights this = modelWeights this'"
  shows "predict this input = predict this' input"
proof -
  have "rawScore this v = rawScore this' v" for v
    using assms by (simp add: rawScore_def)
  then have "clampedScore this v = clampedScore this' v" for v
    by (simp add: clampedScore_def)
  then show ?thesis using assms by (simp add: predict_def split: sum.splits)
qed

theorem predict_depends_on_weights_only_witness:
  "modelWeights newLoanPredictionService =
     modelWeights (newLoanPredictionService\<lparr>thresholds := [],
        metrics := initialMetrics\<lparr>lastTrained := 0, trainingSize := 1\<rparr>\<rparr>) \<and>
   predict (newLoanPredictionService\<lparr>thresholds := [],
        metrics := initialMetrics\<lparr>lastTrained := 0, trainingSize := 1\<rparr>\<rparr>) boundaryProfile =
     Inr boundaryResult"
proof -
  have h: "modelWeights newLoanPredictionService =
     modelWeights (newLoanPredictionService\<lparr>thresholds := [],
        metrics := initialMetrics\<lparr>lastTrained := 0, trainingSize := 1\<rparr>\<rparr>)" by simp
  from predict_depends_on_weights_only [OF h, of boundaryProfile] h boundary_predict
  show ?thesis by simp
qed

subsection \<open>Conversion of stored applications\<close>

text \<open>
  Claim C9. \<open>convertLoanApplicationToPredictionInput\<close> returns a profile for every stored
  application and puts fixed defaults in place of missing or falsy columns: credit score
  650, annual income 50000, employment length 0, loan amount 10000, purpose
  \<open>personal_loan\<close>, home ownership \<open>rent\<close>, verification \<open>not_verified\<close>, and
  debt-to-income 0 when the monthly debt payment or the annual income is missing. The
  profile made from an application with no column filled in passes validation and is
  scored.
\<close>

theorem convert_defaults:
  "(credit_score a = None \<or> credit_score a = Some 0
      \<longrightarrow> creditScore (convertLoanApplicationToPredictionInput a) = 650) \<and>
   (annual_income a = None \<or> annual_income a = Some 0
      \<longrightarrow> annualIncome (convertLoanApplicationToPredictionInput a) = 50000) \<and>
   (employment_length a = None \<or> employment_length a = Some 0
      \<longrightarrow> employmentLength (convertLoanApplicationToPredictionInput a) = 0) \<and>
   (loan_amount a = None \<or> loan_amount a = Some 0
      \<longrightarrow> loanAmount (convertLoanApplicationToPredictionInput a) = 10000) \<and>
   (loan_purpose a = None \<or> loan_purpose a = Some []
      \<longrightarrow> loanPurpose (convertLoanApplicationToPredictionInput a) = ''personal_loan'') \<and>
   (home_ownership a = None \<or> home_ownership a = Some []
      \<longrightarrow> homeOwnership (convertLoanApplicationToPredictionInput a) = ''rent'') \<and>
   (verification_status a = None \<or> verification_status a = Some []
      \<longrightarrow> verificationStatus (convertLoanApplicationToPredictionInput a) = ''not_verified'') \<and>
   (monthly_debt_payment a = None \<or> monthly_debt_payment a = Some 0 \<or>
    annual_income a = None \<or> annual_income a = Some 0
      \<longrightarrow> debtToIncome (convertLoanApplicationToPredictionInput a) = 0) \<and>
   (has_derogatory a = None
      \<longrightarrow> \<not> hasDerogatory (convertLoanApplicationToPredictionInput a)) \<and>
   (delinquencies_last_2years a = None
      \<longrightarrow> delinquenciesLast2Years (convertLoanApplicationToPredictionInput a) = 0) \<and>
   (inquiries_last_6months a = None
      \<longrightarrow> inquiriesLast6Months (convertLoanApplicationToPredictionInput a) = 0) \<and>
   (\<exists>r. predict newLoanPredictionService
          (convertLoanApplicationToPredictionInput nullApplication) = Inr r)"
proof -
  have "schemaIssues (convertLoanApplicationToPredictionInput nullApplication) = []"
    by (simp add: schemaIssues_def convertLoanApplicationToPredictionInput_def
          nullApplication_def or_num_def or_str_def or_bool_def truthy_num_def check_defs)
  then have "\<exists>r. predict newLoanPredictionService
          (convertLoanApplicationToPredictionInput nullApplication) = Inr r"
    by (simp add: predict_Inr)
  then show ?thesis
    by (auto simp: convertLoanApplicationToPredictionInput_def Let_def or_num_def or_str_def
          or_bool_def truthy_num_def)
qed

theorem convert_defaults_witness:
  "convertLoanApplicationToPredictionInput nullApplication =
     \<lparr> creditScore = 650, annualIncome = 50000, employmentLength = 0, loanAmount = 10000,
       loanPurpose = ''personal_loan'', debtToIncome = 0, hasDerogatory = False,
       delinquenciesLast2Years = 0, inquiriesLast6Months = 0,
       homeOwnership = ''rent'', verificationStatus = ''not_verified'' \<rparr>"
proof -
  have n: "credit_score nullApplication = None" "annual_income nullApplication = None"
    "employment_length nullApplication = None" "loan_amount nullApplication = None"
    "loan_purpose nullApplication = None" "home_ownership nullApplication = None"
    "verification_status nullApplication = None" "monthly_debt_payment nullApplication = None"
    "has_derogatory nullApplication = None" "delinquencies_last_2years nullApplication = None"
    "inquiries_last_6months nullApplication = None"
    by (simp_all add: nullApplication_def)
  from convert_defaults [of nullApplication] n
  show ?thesis
    by (cases "convertLoanApplicationToPredictionInput nullApplication") simp
qed

subsection \<open>\<open>calculateDrift\<close>\<close>

lemma filter_length_frac:
  assumes "ps \<noteq> []"
  shows "0 \<le> real (length (filter P ps)) / real (length ps) \<and>
         real (length (filter P ps)) / real (length ps) \<le> 1"
proof -
  have "length (filter P ps) \<le> length ps" by (rule length_filter_le)
  moreover from assms have "0 < length ps" by simp
  ultimately show ?thesis by simp
qed

lemma confidence_partition:
  "length (filter (\<lambda>p. confidence p = High) ps) +
   length (filter (\<lambda>p. confidence p = Medium) ps) +
   length (filter (\<lambda>p. confidence p = Low) ps) = length ps"
proof (induction ps)
  case Nil
  show ?case by simp
next
  case (Cons p ps)
  then show ?case by (cases "confidence p") simp_all
qed

text \<open>
  Claim C10. \<open>calculateDrift\<close> returns a report for every list of results. On the empty
  list the approval rate, the average score and the three confidence fractions are 0 and
  no retraining is asked for. On a list that is not empty the divisor is its length, the
  approval rate and each confidence fraction lie in \<open>[0, 1]\<close>, and the three fractions
  add up to 1.
\<close>

theorem calculateDrift_total:
  "calculateDrift this now [] =
     \<lparr> approvalRate = 0, averageScore = 0,
       confidenceDistribution = \<lparr> high = 0, medium = 0, low = 0 \<rparr>,
       needsRetraining = False \<rparr> \<and>
   (ps \<noteq> [] \<longrightarrow>
      0 \<le> approvalRate (calculateDrift this now ps) \<and>
      approvalRate (calculateDrift this now ps) \<le> 1 \<and>
      0 \<le> high (confidenceDistribution (calculateDrift this now ps)) \<and>
      high (confidenceDistribution (calculateDrift this now ps)) \<le> 1 \<and>
      0 \<le> medium (confidenceDistribution (calculateDrift this now ps)) \<and>
      medium (confidenceDistribution (calculateDrift this now ps)) \<le> 1 \<and>
      0 \<le> low (confidenceDistribution (calculateDrift this now ps)) \<and>
      low (confidenceDistribution (calculateDrift this now ps)) \<le> 1 \<and>
      high (confidenceDistribution (calculateDrift this now ps)) +
      medium (confidenceDistribution (calculateDrift this now ps)) +
      low (confidenceDistribution (calculateDrift this now ps)) = 1)"
proof -
  have e: "calculateDrift this now [] =
     \<lparr> approvalRate = 0, averageScore = 0,
       confidenceDistribution = \<lparr> high = 0, medium = 0, low = 0 \<rparr>,
       needsRetraining = False \<rparr>"
    by (simp add: calculateDrift_def)
  have n: ?thesis if ne: "ps \<noteq> []"
  proof -
    let ?n = "real (length ps)"
    have rate: "approvalRate (calculateDrift this now ps) =
        real (length (filter (\<lambda>p. prediction p = Approved) ps)) / ?n"
      and hi: "high (confidenceDistribution (calculateDrift this now ps)) =
        real (length (filter (\<lambda>p. confidence p = High) ps)) / ?n"
      and me: "medium (confidenceDistribution (calculateDrift this now ps)) =
        real (length (filter (\<lambda>p. confidence p = Medium) ps)) / ?n"
      and lo: "low (confidenceDistribution (calculateDrift this now ps)) =
        real (length (filter (\<lambda>p. confidence p = Low) ps)) / ?n"
      using ne by (simp_all add: calculateDrift_def Let_def)
    have pos: "?n \<noteq> 0" using ne by simp
    have "real (length (filter (\<lambda>p. confidence p = High) ps)) / ?n +
          real (length (filter (\<lambda>p. confidence p = Medium) ps)) / ?n +
          real (length (filter (\<lambda>p. confidence p = Low) ps)) / ?n =
          real (length (filter (\<lambda>p. confidence p = High) ps) +
                length (filter (\<lambda>p. confidence p = Medium) ps) +
                length (filter (\<lambda>p. confidence p = Low) ps)) / ?n"
      by (simp add: add_divide_distrib)
    also have "\<dots> = 1" unfolding confidence_partition using pos by simp
    finally have sum: "high (confidenceDistribution (calculateDrift this now ps)) +
      medium (confidenceDistribution (calculateDrift this now ps)) +
      low (confidenceDistribution (calculateDrift this now ps)) = 1"
      unfolding hi me lo .
    show ?thesis
      using e sum filter_length_frac [OF ne] unfolding rate hi me lo by simp
  qed
  show ?thesis
  proof (cases "ps = []")
    case True
    with e show ?thesis by simp
  next
    case False
    then show ?thesis by (rule n)
  qed
qed

theorem calculateDrift_total_witness:
  "[sampleApproved, sampleDenied] \<noteq> [] \<and>
   approvalRate (calculateDrift newLoanPredictionService 1705276800000
     [sampleApproved, sampleDenied]) = 1 / 2 \<and>
   confidenceDistribution (calculateDrift newLoanPredictionService 1705276800000
     [sampleApproved, sampleDenied]) = \<lparr> high = 1 / 2, medium = 0, low = 1 / 2 \<rparr> \<and>
   averageScore (calculateDrift newLoanPredictionService 1705276800000
     [sampleApproved, sampleDenied]) = 540 \<and>
   needsRetraining (calculateDrift newLoanPredictionService 1705276800000
     [sampleApproved, sampleDenied])"
  using calculateDrift_total [of newLoanPredictionService 1705276800000
      "[sampleApproved, sampleDenied]"]
  by (simp add: calculateDrift_def Let_def sampleApproved_def sampleDenied_def)

end
